theory Spec2Isabelle
  imports Complex_Main "HOL-Library.Sublist"
begin

section \<open>Python values\<close>

text \<open>
  A Python \<^verbatim>\<open>str\<close> is a sequence of Unicode code points, modelled as a list of
  naturals; \<open>u ''abc''\<close> is the \<^verbatim>\<open>str\<close> of an ASCII literal. \<^verbatim>\<open>bytes\<close> are a list of
  8-bit characters (\<open>string\<close>).
\<close>

type_synonym ustr = "nat list"

definition u :: "string \<Rightarrow> ustr" where
  "u s = map of_char s"

text \<open>
  A Python \<^verbatim>\<open>float\<close>. \<open>Finite r\<close> stands for the double nearest to the rational \<open>r\<close>,
  which is what \<^verbatim>\<open>float\<close> reads from the decimal \<open>r\<close>. The binary rounding of doubles
  is not computed: the sum of a column and the rounding to two decimals are given a value
  only where every double involved is exactly the rational written and no operation
  rounds (\<open>exact_sum\<close> below), and are left unmodelled elsewhere.
  Overflow to infinity at the end of the double range is modelled: a decimal of
  magnitude \<open>2 ^ 1024 - 2 ^ 970\<close> or more (half an ulp above the largest double) is read
  as an infinity.
\<close>

datatype pyfloat = Finite rat | PosInf | NegInf | NaN

definition dbl_overflow :: rat where
  "dbl_overflow = 2 ^ 1024 - 2 ^ 970"

definition to_double :: "rat \<Rightarrow> pyfloat" where
  "to_double r =
     (if dbl_overflow \<le> r then PosInf
      else if r \<le> - dbl_overflow then NegInf
      else Finite r)"

fun is_finite :: "pyfloat \<Rightarrow> bool" where
  "is_finite (Finite r) = True"
| "is_finite PosInf = False"
| "is_finite NegInf = False"
| "is_finite NaN = False"

text \<open>
  The values pandas holds in the cells of a frame read by \<^verbatim>\<open>read_csv\<close>: strings,
  integers, floats (the missing marker is the float NaN) and booleans. A function passed
  to \<^verbatim>\<open>apply\<close> receives one cell, or a whole column (a \<^verbatim>\<open>Series\<close>) when \<^verbatim>\<open>apply\<close>
  runs on a \<^verbatim>\<open>DataFrame\<close>.
\<close>

datatype cell = CStr ustr | CInt int | CFloat pyfloat | CBool bool

datatype pyobj = Scalar cell | SeriesObj "cell list"

text \<open>
  Exceptions. \<open>HTTPException status detail e\<close> carries the status code, the literal part
  of the detail message and, where the source formats \<^verbatim>\<open>str(e)\<close> into the message, the
  exception \<open>e\<close>.
\<close>

datatype pyexc =
    UnicodeDecodeError
  | EmptyDataError
  | ParserError string
  | KeyError
  | ValueError
  | TypeError
  | AttributeError
  | HTTPException nat string "pyexc option"

text \<open>
  The outcome of a call: a value, a raised exception, or \<open>Unmodelled\<close> where the
  model says nothing: where the outcome depends on the pandas version (assignment to a
  duplicated column label) or on the binary rounding of doubles (a sum or a rounding
  that is not exact).
\<close>

datatype 'a res = Ok 'a | Raise pyexc | Unmodelled

text \<open>The records the code writes to its logger, which is the only state it touches.\<close>

datatype logrec =
    Info_columns "ustr list"
  | Info_shape nat nat
  | Info_amount_column ustr
  | Info_category_column ustr
  | Info_food_count nat
  | Info_total cell
  | Warning_amount ustr
  | Error_unexpected pyexc

type_synonym log = "logrec list"

type_synonym dataframe = "(ustr \<times> cell list) list"

section \<open>The library\<close>

text \<open>
  The Unicode tables of the interpreter and the CSV reader of pandas are not code of
  this repository: they are parameters of the model.
  \<^item> \<open>str_decimal c\<close> is the value of \<open>c\<close> when \<open>c\<close> is a decimal digit (category Nd: what
    \<^verbatim>\<open>\d\<close> matches and \<^verbatim>\<open>float\<close> reads as a digit);
  \<^item> \<open>str_lower\<close> is \<^verbatim>\<open>str.lower\<close>;
  \<^item> \<open>float_repr r\<close> is \<^verbatim>\<open>str(x)\<close> of the finite float \<open>x\<close>;
  \<^item> \<open>read_csv\<close> is \<^verbatim>\<open>pd.read_csv(io.StringIO(text), skipinitialspace=True,
    skip_blank_lines=True, encoding_errors='replace')\<close>.
\<close>

record pylib =
  str_decimal :: "nat \<Rightarrow> nat option"
  str_lower :: "ustr \<Rightarrow> ustr"
  float_repr :: "rat \<Rightarrow> ustr"
  read_csv :: "ustr \<Rightarrow> pyexc + dataframe"

definition is_decimal :: "pylib \<Rightarrow> nat \<Rightarrow> bool" where
  "is_decimal L c = (str_decimal L c \<noteq> None)"

text \<open>
  \<^verbatim>\<open>str.isspace\<close> of one code point, which is also what \<^verbatim>\<open>\s\<close> matches: the
  whitespace of the Unicode database.
\<close>

definition py_isspace :: "nat \<Rightarrow> bool" where
  "py_isspace c =
     ((9 \<le> c \<and> c \<le> 13) \<or> (28 \<le> c \<and> c \<le> 32) \<or> c = 133 \<or> c = 160 \<or> c = 5760
      \<or> (8192 \<le> c \<and> c \<le> 8202) \<or> c = 8232 \<or> c = 8233 \<or> c = 8239 \<or> c = 8287
      \<or> c = 12288)"

definition strip :: "ustr \<Rightarrow> ustr" where
  "strip s = rev (dropWhile py_isspace (rev (dropWhile py_isspace s)))"

text \<open>The tables on the ASCII range, where they are known.\<close>

definition ascii_decimal :: "nat \<Rightarrow> nat option" where
  "ascii_decimal c = (if 48 \<le> c \<and> c \<le> 57 then Some (c - 48) else None)"

definition ascii_lower :: "nat \<Rightarrow> nat" where
  "ascii_lower c = (if 65 \<le> c \<and> c \<le> 90 then c + 32 else c)"

definition is_ascii :: "ustr \<Rightarrow> bool" where
  "is_ascii s = list_all (\<lambda>c. c < 128) s"

definition unicode_on_ascii :: "pylib \<Rightarrow> bool" where
  "unicode_on_ascii L =
     ((\<forall>c. c < 128 \<longrightarrow> str_decimal L c = ascii_decimal c) \<and>
      (\<forall>s. is_ascii s \<longrightarrow> str_lower L s = map ascii_lower s))"

subsection \<open>\<^verbatim>\<open>str(x)\<close>\<close>

fun digits :: "nat \<Rightarrow> ustr" where
  "digits n = (if n < 10 then [48 + n] else digits (n div 10) @ [48 + n mod 10])"

declare digits.simps [simp del]

definition str_int :: "int \<Rightarrow> ustr" where
  "str_int i = (if i < 0 then 45 # digits (nat (- i)) else digits (nat i))"

fun str_float :: "pylib \<Rightarrow> pyfloat \<Rightarrow> ustr" where
  "str_float L (Finite r) = float_repr L r"
| "str_float L PosInf = u ''inf''"
| "str_float L NegInf = u ''-inf''"
| "str_float L NaN = u ''nan''"

fun py_str :: "pylib \<Rightarrow> cell \<Rightarrow> ustr" where
  "py_str L (CStr s) = s"
| "py_str L (CInt i) = str_int i"
| "py_str L (CFloat x) = str_float L x"
| "py_str L (CBool b) = (if b then u ''True'' else u ''False'')"

text \<open>\<^verbatim>\<open>pd.isna(x)\<close> of a cell: the missing marker is the float NaN.\<close>

definition isna :: "cell \<Rightarrow> bool" where
  "isna c = (c = CFloat NaN)"

subsection \<open>\<^verbatim>\<open>float(s)\<close>\<close>

text \<open>
  \<^verbatim>\<open>float\<close> on a string of decimal digits, \<^verbatim>\<open>.\<close> and \<^verbatim>\<open>-\<close>, which is all the second
  \<^verbatim>\<open>re.sub\<close> of \<^verbatim>\<open>clean_amount\<close> leaves: an optional leading minus, then digits with at
  most one point and at least one digit. Anything else raises \<^verbatim>\<open>ValueError\<close>. (On other
  strings \<^verbatim>\<open>float\<close> reads more: exponents, \<^verbatim>\<open>inf\<close>, \<^verbatim>\<open>nan\<close>, a plus sign, blanks,
  underscores; none of them reaches it here.)
\<close>

fun digits_val :: "pylib \<Rightarrow> ustr \<Rightarrow> nat \<Rightarrow> nat" where
  "digits_val L [] acc = acc"
| "digits_val L (c # cs) acc = digits_val L cs (10 * acc + (case str_decimal L c of None \<Rightarrow> 0 | Some d \<Rightarrow> d))"

fun split_sign :: "ustr \<Rightarrow> bool \<times> ustr" where
  "split_sign [] = (False, [])"
| "split_sign (c # cs) = (if c = 45 then (True, cs) else (False, c # cs))"

fun split_point :: "ustr \<Rightarrow> ustr option" where
  "split_point [] = Some []"
| "split_point (c # cs) = (if c = 46 then Some cs else None)"

text \<open>The value of the decimal numeral, when the string is one.\<close>

definition decimal_value :: "pylib \<Rightarrow> ustr \<Rightarrow> rat option" where
  "decimal_value L s =
     (case split_sign s of (neg, body) \<Rightarrow>
        let ip = takeWhile (is_decimal L) body in
        (case split_point (dropWhile (is_decimal L) body) of
           None \<Rightarrow> None
         | Some fp \<Rightarrow>
             if list_all (is_decimal L) fp \<and> (ip \<noteq> [] \<or> fp \<noteq> [])
             then Some ((if neg then - 1 else 1)
                        * (of_nat (digits_val L (ip @ fp) 0) / 10 ^ length fp))
             else None))"

definition py_float :: "pylib \<Rightarrow> ustr \<Rightarrow> pyfloat res" where
  "py_float L s =
     (case decimal_value L s of
        None \<Rightarrow> Raise ValueError
      | Some r \<Rightarrow> Ok (to_double r))"

section \<open>The Value Normalizer: \<^verbatim>\<open>clean_amount\<close>\<close>

text \<open>
  \<^verbatim>\<open>re.sub(r'[$...,]', '', s)\<close> removes the dollar, euro, pound, yen and rupee signs and
  the comma.
\<close>

definition currency_chars :: "nat list" where
  "currency_chars = [36, 8364, 163, 165, 8377, 44]"

definition startswith :: "ustr \<Rightarrow> nat \<Rightarrow> bool" where
  "startswith s c = (case s of [] \<Rightarrow> False | x # _ \<Rightarrow> x = c)"

definition endswith :: "ustr \<Rightarrow> nat \<Rightarrow> bool" where
  "endswith s c = (case rev s of [] \<Rightarrow> False | x # _ \<Rightarrow> x = c)"

text \<open>
  Lines 30 to 40: the string handed to \<^verbatim>\<open>float\<close>. It is stripped, loses the currency
  signs and commas, has a pair of enclosing parentheses replaced by a leading minus, and
  keeps only decimal digits, points and minus signs.
\<close>

definition amount_token :: "pylib \<Rightarrow> cell \<Rightarrow> ustr" where
  "amount_token L c =
     (let s0 = strip (py_str L c);
          s1 = filter (\<lambda>ch. ch \<notin> set currency_chars) s0;
          s2 = (if startswith s1 40 \<and> endswith s1 41 then 45 # butlast (tl s1) else s1)
      in filter (\<lambda>ch. is_decimal L ch \<or> ch = 46 \<or> ch = 45) s2)"

text \<open>
  On a whole column the test \<^verbatim>\<open>pd.isna(amount_str) or ...\<close> asks for the truth value of
  a \<^verbatim>\<open>Series\<close>, which raises \<^verbatim>\<open>ValueError\<close> outside the \<^verbatim>\<open>try\<close>. The \<^verbatim>\<open>try\<close> catches
  \<^verbatim>\<open>ValueError\<close> only.
\<close>

fun clean_amount :: "pylib \<Rightarrow> pyobj \<Rightarrow> log \<Rightarrow> pyfloat res \<times> log" where
  "clean_amount L (SeriesObj xs) lg = (Raise ValueError, lg)"
| "clean_amount L (Scalar c) lg =
     (if isna c \<or> c = CStr [] then (Ok (Finite 0), lg)
      else
        (case py_float L (amount_token L c) of
           Raise ValueError \<Rightarrow> (Ok (Finite 0), lg @ [Warning_amount (amount_token L c)])
         | r \<Rightarrow> (r, lg)))"

section \<open>The Category Normalizer and the Food Classifier\<close>

text \<open>\<^verbatim>\<open>re.sub(r'\s+', ' ', s)\<close>: every maximal run of whitespace becomes one space.\<close>

function collapse_ws :: "ustr \<Rightarrow> ustr" where
  "collapse_ws [] = []"
| "collapse_ws (c # cs) =
     (if py_isspace c then 32 # collapse_ws (dropWhile py_isspace cs)
      else c # collapse_ws cs)"
  by pat_completeness auto
termination
  by (relation "measure length") (auto simp: le_imp_less_Suc length_dropWhile_le)

text \<open>
  On a whole column \<^verbatim>\<open>if pd.isna(category)\<close> raises \<^verbatim>\<open>ValueError\<close>, as in
  \<^verbatim>\<open>clean_amount\<close>.
\<close>

fun clean_category :: "pylib \<Rightarrow> pyobj \<Rightarrow> ustr res" where
  "clean_category L (SeriesObj xs) = Raise ValueError"
| "clean_category L (Scalar c) =
     (if isna c then Ok []
      else Ok (collapse_ws (str_lower L (strip (py_str L c)))))"

text \<open>\<^verbatim>\<open>k in s\<close> on strings: \<open>k\<close> occurs in \<open>s\<close> as a contiguous substring.\<close>

fun contains :: "ustr \<Rightarrow> ustr \<Rightarrow> bool" where
  "contains k [] = (k = [])"
| "contains k (c # cs) = (prefix k (c # cs) \<or> contains k cs)"

definition food_keywords :: "ustr list" where
  "food_keywords = map u
     [''food'', ''restaurant'', ''dining'', ''lunch'', ''dinner'', ''breakfast'',
      ''cafe'', ''coffee'', ''snack'', ''meal'', ''grocery'', ''groceries'',
      ''catering'', ''takeout'', ''delivery'', ''fast food'', ''fastfood'']"

text \<open>
  Only a \<^verbatim>\<open>str\<close> has the method \<^verbatim>\<open>lower\<close>: on any other value \<^verbatim>\<open>category.lower()\<close>
  raises \<^verbatim>\<open>AttributeError\<close>.
\<close>

fun is_food_category :: "pylib \<Rightarrow> pyobj \<Rightarrow> bool res" where
  "is_food_category L (Scalar (CStr category)) =
     (let category_clean = strip (str_lower L category)
      in if category_clean = u ''food'' then Ok True
         else if list_ex (\<lambda>keyword. contains keyword category_clean) food_keywords
           then Ok True
         else Ok False)"
| "is_food_category L x = Raise AttributeError"

section \<open>Decoding the upload\<close>

text \<open>
  The three codecs on a list of byte values. \<^verbatim>\<open>utf-8\<close> is strict: no overlong forms,
  no surrogates, nothing above U+10FFFF. \<^verbatim>\<open>latin-1\<close> maps every byte to the code point
  of the same number. \<^verbatim>\<open>cp1252\<close> has no character for five bytes.
\<close>

definition is_cont :: "nat \<Rightarrow> bool" where
  "is_cont b = (128 \<le> b \<and> b < 192)"

fun decode_utf8 :: "nat list \<Rightarrow> ustr option" where
  "decode_utf8 [] = Some []"
| "decode_utf8 (b0 # bs) =
     (if b0 < 128 then map_option ((#) b0) (decode_utf8 bs)
      else if 194 \<le> b0 \<and> b0 < 224 then
        (case bs of
           b1 # r \<Rightarrow>
             if is_cont b1
             then map_option ((#) ((b0 - 192) * 64 + (b1 - 128))) (decode_utf8 r)
             else None
         | _ \<Rightarrow> None)
      else if 224 \<le> b0 \<and> b0 < 240 then
        (case bs of
           b1 # b2 # r \<Rightarrow>
             if is_cont b1 \<and> is_cont b2
                \<and> (if b0 = 224 then 160 \<le> b1 else True)
                \<and> (if b0 = 237 then b1 < 160 else True)
             then map_option
                    ((#) ((b0 - 224) * 4096 + (b1 - 128) * 64 + (b2 - 128)))
                    (decode_utf8 r)
             else None
         | _ \<Rightarrow> None)
      else if 240 \<le> b0 \<and> b0 < 245 then
        (case bs of
           b1 # b2 # b3 # r \<Rightarrow>
             if is_cont b1 \<and> is_cont b2 \<and> is_cont b3
                \<and> (if b0 = 240 then 144 \<le> b1 else True)
                \<and> (if b0 = 244 then b1 < 144 else True)
             then map_option
                    ((#) ((b0 - 240) * 262144 + (b1 - 128) * 4096 + (b2 - 128) * 64
                          + (b3 - 128)))
                    (decode_utf8 r)
             else None
         | _ \<Rightarrow> None)
      else None)"

definition decode_latin1 :: "nat list \<Rightarrow> ustr option" where
  "decode_latin1 bs = Some bs"

definition cp1252_high :: "nat list" where
  "cp1252_high =
     [8364, 0, 8218, 402, 8222, 8230, 8224, 8225, 710, 8240, 352, 8249, 338, 0, 381, 0,
      0, 8216, 8217, 8220, 8221, 8226, 8211, 8212, 732, 8482, 353, 8250, 339, 0, 382, 376]"

definition cp1252_char :: "nat \<Rightarrow> nat option" where
  "cp1252_char b =
     (if b < 128 \<or> 160 \<le> b then Some b
      else if cp1252_high ! (b - 128) = 0 then None
      else Some (cp1252_high ! (b - 128)))"

fun decode_cp1252 :: "nat list \<Rightarrow> ustr option" where
  "decode_cp1252 [] = Some []"
| "decode_cp1252 (b # bs) =
     (case cp1252_char b of
        None \<Rightarrow> None
      | Some c \<Rightarrow> map_option ((#) c) (decode_cp1252 bs))"

datatype codec = Utf8 | Latin1 | Cp1252

text \<open>
  Lines 91 to 98: the nested \<^verbatim>\<open>try\<close> blocks. The first component lists the codecs
  tried, in order; the second is \<^verbatim>\<open>csv_string\<close>, or the \<^verbatim>\<open>UnicodeDecodeError\<close> of the
  last codec.
\<close>

definition decode_trace :: "string \<Rightarrow> codec list \<times> ustr res" where
  "decode_trace contents =
     (let bs = map of_char contents in
      case decode_utf8 bs of
        Some s \<Rightarrow> ([Utf8], Ok s)
      | None \<Rightarrow>
          (case decode_latin1 bs of
             Some s \<Rightarrow> ([Utf8, Latin1], Ok s)
           | None \<Rightarrow>
               (case decode_cp1252 bs of
                  Some s \<Rightarrow> ([Utf8, Latin1, Cp1252], Ok s)
                | None \<Rightarrow> ([Utf8, Latin1, Cp1252], Raise UnicodeDecodeError))))"

definition decode_contents :: "string \<Rightarrow> ustr res" where
  "decode_contents contents = snd (decode_trace contents)"

section \<open>Frames\<close>

text \<open>
  A \<^verbatim>\<open>DataFrame\<close> is the list of its columns in order, each with its label; labels may
  repeat. \<^verbatim>\<open>df[key]\<close> is a \<^verbatim>\<open>Series\<close> when one column has the label and a
  \<^verbatim>\<open>DataFrame\<close> when several have. \<^verbatim>\<open>df[key] = values\<close> adds a column or replaces the
  one of that label.
\<close>

definition nrows :: "dataframe \<Rightarrow> nat" where
  "nrows df = (case df of [] \<Rightarrow> 0 | col # _ \<Rightarrow> length (snd col))"

definition df_empty :: "dataframe \<Rightarrow> bool" where
  "df_empty df = (df = [] \<or> nrows df = 0)"

definition set_columns :: "ustr list \<Rightarrow> dataframe \<Rightarrow> dataframe" where
  "set_columns labels df = zip labels (map snd df)"

text \<open>
  What \<^verbatim>\<open>df[key]\<close> gives: one column, or the columns that share the label.
\<close>

datatype 'c selection = Series 'c | Frame "'c list"

definition getitem :: "(ustr \<times> 'c) list \<Rightarrow> ustr \<Rightarrow> 'c selection res" where
  "getitem df key =
     (case filter (\<lambda>col. fst col = key) df of
        [] \<Rightarrow> Raise KeyError
      | [col] \<Rightarrow> Ok (Series (snd col))
      | cols \<Rightarrow> Ok (Frame (map snd cols)))"

definition setitem :: "dataframe \<Rightarrow> ustr \<Rightarrow> cell list \<Rightarrow> dataframe res" where
  "setitem df key values =
     (case filter (\<lambda>col. fst col = key) df of
        [] \<Rightarrow> Ok (df @ [(key, values)])
      | [col] \<Rightarrow> Ok (map (\<lambda>col. if fst col = key then (key, values) else col) df)
      | cols \<Rightarrow> Unmodelled)"

text \<open>
  The dtype of a column is the one pandas infers from its values: \<^verbatim>\<open>float64\<close> for a
  column of floats (what \<^verbatim>\<open>apply(clean_amount)\<close> returns), the string dtype for a column
  of strings (what \<^verbatim>\<open>apply(clean_category)\<close> returns). The other dtypes play no part in
  this program.
\<close>

datatype dtype = Float64 | StrDtype | OtherDtype

definition infer_dtype :: "cell list \<Rightarrow> dtype" where
  "infer_dtype xs =
     (if xs \<noteq> [] \<and> list_all (\<lambda>x. case x of CFloat f \<Rightarrow> True | _ \<Rightarrow> False) xs then Float64
      else if xs \<noteq> [] \<and> list_all (\<lambda>x. case x of CStr s \<Rightarrow> True | _ \<Rightarrow> False) xs then StrDtype
      else OtherDtype)"

text \<open>
  \<^verbatim>\<open>df[mask]\<close>: the rows where the mask is true. Every column of the result keeps the
  dtype it had in \<open>df\<close>, also when no row is left.
\<close>

definition select_rows :: "dataframe \<Rightarrow> bool list \<Rightarrow> (ustr \<times> dtype \<times> cell list) list" where
  "select_rows df keep =
     map (\<lambda>col. (fst col, infer_dtype (snd col), map fst (filter snd (zip (snd col) keep)))) df"

text \<open>
  \<^verbatim>\<open>apply\<close>: on a \<^verbatim>\<open>Series\<close> the function is called on every cell in order; on a
  \<^verbatim>\<open>DataFrame\<close> it is called on the first column as a \<^verbatim>\<open>Series\<close> (the three functions
  of this program raise there).
\<close>

fun apply_cells ::
  "(pyobj \<Rightarrow> log \<Rightarrow> 'a res \<times> log) \<Rightarrow> cell list \<Rightarrow> log \<Rightarrow> 'a list res \<times> log" where
  "apply_cells f [] lg = (Ok [], lg)"
| "apply_cells f (x # xs) lg =
     (case f (Scalar x) lg of
        (Ok y, lg1) \<Rightarrow>
          (case apply_cells f xs lg1 of
             (Ok ys, lg2) \<Rightarrow> (Ok (y # ys), lg2)
           | (Raise e, lg2) \<Rightarrow> (Raise e, lg2)
           | (Unmodelled, lg2) \<Rightarrow> (Unmodelled, lg2))
      | (Raise e, lg1) \<Rightarrow> (Raise e, lg1)
      | (Unmodelled, lg1) \<Rightarrow> (Unmodelled, lg1))"

definition apply_sel ::
  "(pyobj \<Rightarrow> log \<Rightarrow> 'a res \<times> log) \<Rightarrow> cell list selection \<Rightarrow> log \<Rightarrow> 'a list res \<times> log" where
  "apply_sel f sel lg =
     (case sel of
        Series xs \<Rightarrow> apply_cells f xs lg
      | Frame [] \<Rightarrow> (Unmodelled, lg)
      | Frame (column # columns) \<Rightarrow>
          (case f (SeriesObj column) lg of
             (Raise e, lg1) \<Rightarrow> (Raise e, lg1)
           | (r, lg1) \<Rightarrow> (Unmodelled, lg1)))"

subsection \<open>\<^verbatim>\<open>sum\<close> and \<^verbatim>\<open>round\<close>\<close>

text \<open>
  Sums that are exact in doubles. A rational \<open>m / 2 ^ k\<close> with \<open>\<bar>m\<bar> < 2 ^ 53\<close> and
  \<open>k \<le> 1074\<close> is a double. When the values of a list are all multiples of one such
  \<open>1 / 2 ^ k\<close> and their magnitudes add up to less than \<open>2 ^ 53 / 2 ^ k\<close>, the values are
  doubles and so is the sum of any of them: no addition rounds, in whatever order the
  library adds, and the sum of the doubles is the sum of the rationals.
\<close>

definition exact_sum :: "rat list \<Rightarrow> bool" where
  "exact_sum rs =
     (\<exists>k \<in> {0..1074::nat}.
        list_all (\<lambda>r. of_int \<lfloor>r * 2 ^ k\<rfloor> = r * 2 ^ k) rs
        \<and> sum_list (map abs rs) * 2 ^ k < 2 ^ 53)"

text \<open>The values of a column of finite floats, and of a column of strings.\<close>

fun finite_values :: "cell list \<Rightarrow> rat list option" where
  "finite_values [] = Some []"
| "finite_values (CFloat (Finite r) # xs) = map_option (Cons r) (finite_values xs)"
| "finite_values (x # xs) = None"

fun str_values :: "cell list \<Rightarrow> ustr list option" where
  "str_values [] = Some []"
| "str_values (CStr s # xs) = map_option (Cons s) (str_values xs)"
| "str_values (x # xs) = None"

text \<open>
  \<^verbatim>\<open>Series.sum()\<close>. What the sum of a column is depends on the dtype of the column: floats
  add, and the sum of no float is \<open>0.0\<close>; strings concatenate, and the sum of no string is
  the empty string. The sum of floats is given where it is exact; a column that holds
  an infinity or a NaN is left unmodelled (\<^verbatim>\<open>clean_amount\<close> returns no NaN, so that
  there is no missing value to skip).
\<close>

fun series_sum :: "dtype \<times> cell list \<Rightarrow> cell res" where
  "series_sum (Float64, xs) =
     (case finite_values xs of
        Some rs \<Rightarrow> if exact_sum rs then Ok (CFloat (Finite (sum_list rs))) else Unmodelled
      | None \<Rightarrow> Unmodelled)"
| "series_sum (StrDtype, xs) =
     (case str_values xs of
        Some ss \<Rightarrow> Ok (CStr (concat ss))
      | None \<Rightarrow> Unmodelled)"
| "series_sum (OtherDtype, xs) = Unmodelled"

definition sum_sel :: "(dtype \<times> cell list) selection \<Rightarrow> cell res" where
  "sum_sel sel = (case sel of Series xs \<Rightarrow> series_sum xs | Frame cs \<Rightarrow> Unmodelled)"

text \<open>Rounding to the nearest integer, a tie to the even one.\<close>

definition round_half_even :: "rat \<Rightarrow> int" where
  "round_half_even q =
     (let f = floor q; d = q - of_int f
      in if d < 1 / 2 then f
         else if 1 / 2 < d then f + 1
         else if even f then f else f + 1)"

text \<open>
  \<^verbatim>\<open>round(x, 2)\<close>. On a float \<open>x\<close> the result is the double nearest to \<open>n / 100\<close>, where
  \<open>n\<close> is \<open>100 * x\<close> rounded to the nearest integer, a tie to the even one; it is given
  where \<open>x\<close>, \<open>100 * x\<close> and \<open>n / 100\<close> are doubles, so that no step rounds. A \<^verbatim>\<open>str\<close>
  has no \<^verbatim>\<open>__round__\<close>.
\<close>

fun py_round2 :: "cell \<Rightarrow> cell res" where
  "py_round2 (CFloat (Finite r)) =
     (let q = of_int (round_half_even (r * 100)) / 100
      in if exact_sum [r] \<and> exact_sum [r * 100] \<and> exact_sum [q] then Ok (CFloat (Finite q))
         else Unmodelled)"
| "py_round2 (CFloat x) = Ok (CFloat x)"
| "py_round2 (CInt i) = Ok (CInt i)"
| "py_round2 (CBool b) = Ok (CInt (if b then 1 else 0))"
| "py_round2 (CStr s) = Raise TypeError"

section \<open>The Column Detector\<close>

definition amount_keywords :: "ustr list" where
  "amount_keywords = map u [''amount'', ''cost'', ''price'', ''total'', ''sum'', ''expense'']"

definition category_keywords :: "ustr list" where
  "category_keywords = map u [''category'', ''type'', ''description'', ''item'']"

text \<open>
  Lines 127 to 130 and 133 to 136: the loop over the columns that stops at the first
  one containing a keyword; \<open>None\<close> when the loop ends without one.
\<close>

fun detect_column :: "ustr list \<Rightarrow> ustr list \<Rightarrow> ustr option" where
  "detect_column keywords [] = None"
| "detect_column keywords (col # cols) =
     (if list_ex (\<lambda>keyword. contains keyword col) keywords then Some col
      else detect_column keywords cols)"

text \<open>
  The specification's words: a header mentions a keyword list when it contains one of
  the keywords as a substring, and \<open>h\<close> is the first header with a property when it
  stands at a position before which no header has the property.
\<close>

definition mentions :: "ustr list \<Rightarrow> ustr \<Rightarrow> bool" where
  "mentions keywords h = (\<exists>k \<in> set keywords. sublist k h)"

definition first_header :: "(ustr \<Rightarrow> bool) \<Rightarrow> ustr list \<Rightarrow> ustr \<Rightarrow> bool" where
  "first_header P hs h = (\<exists>i < length hs. hs ! i = h \<and> P h \<and> (\<forall>j < i. \<not> P (hs ! j)))"

section \<open>The Analysis Pipeline: \<^verbatim>\<open>analyze_expenses\<close>\<close>

record analysis =
  answer :: cell
  email :: string
  exam :: string

text \<open>Sequencing of calls that may raise, with the log passed along.\<close>

definition bind ::
  "'a res \<times> log \<Rightarrow> ('a \<Rightarrow> log \<Rightarrow> 'b res \<times> log) \<Rightarrow> 'b res \<times> log" where
  "bind m f =
     (case m of
        (Ok x, lg) \<Rightarrow> f x lg
      | (Raise e, lg) \<Rightarrow> (Raise e, lg)
      | (Unmodelled, lg) \<Rightarrow> (Unmodelled, lg))"

definition pure :: "('b \<Rightarrow> 'a res) \<Rightarrow> 'b \<Rightarrow> log \<Rightarrow> 'a res \<times> log" where
  "pure f x lg = (f x, lg)"


text \<open>
  The exceptions that the outer handler raises again unchanged, and the outcomes that
  are none of them.
\<close>

fun is_http :: "pyexc \<Rightarrow> bool" where
  "is_http (HTTPException status detail e) = True"
| "is_http e = False"

definition no_http :: "'a res \<times> log \<Rightarrow> bool" where
  "no_http m = (case fst m of Raise e \<Rightarrow> \<not> is_http e | _ \<Rightarrow> True)"

text \<open>
  Lines 101 to 111: \<^verbatim>\<open>pd.read_csv\<close> in its \<^verbatim>\<open>try\<close>. \<^verbatim>\<open>EmptyDataError\<close> has its own
  handler; every other exception is caught by \<^verbatim>\<open>except Exception\<close>.
\<close>

definition parse_csv :: "pylib \<Rightarrow> ustr \<Rightarrow> dataframe res" where
  "parse_csv L csv_string =
     (case read_csv L csv_string of
        Inr df \<Rightarrow> Ok df
      | Inl EmptyDataError \<Rightarrow> Raise (HTTPException 400 ''CSV file is empty'' None)
      | Inl e \<Rightarrow> Raise (HTTPException 400 ''Error reading CSV: '' (Some e)))"

text \<open>Lines 144 to 166: cleaning, filtering, the total and the response.\<close>

definition total_food_spending ::
  "pylib \<Rightarrow> dataframe \<Rightarrow> ustr \<Rightarrow> ustr \<Rightarrow> log \<Rightarrow> analysis res \<times> log" where
  "total_food_spending L df amount_col category_col lg0 =
     bind (getitem df amount_col,
           lg0 @ [Info_amount_column amount_col, Info_category_column category_col])
       (\<lambda>sel lg.
     bind (apply_sel (clean_amount L) sel lg) (\<lambda>amounts lg.
     bind (setitem df (amount_col @ u ''_clean'') (map CFloat amounts), lg) (\<lambda>df1 lg.
     bind (getitem df1 category_col, lg) (\<lambda>sel lg.
     bind (apply_sel (pure (clean_category L)) sel lg) (\<lambda>categories lg.
     bind (setitem df1 (category_col @ u ''_clean'') (map CStr categories), lg) (\<lambda>df2 lg.
     bind (getitem df2 (category_col @ u ''_clean''), lg) (\<lambda>sel lg.
     bind (apply_sel (pure (is_food_category L)) sel lg) (\<lambda>food_mask lg.
     let food_expenses = select_rows df2 food_mask in
     bind (getitem food_expenses (amount_col @ u ''_clean''),
           lg @ [Info_food_count (length (filter id food_mask))]) (\<lambda>sel lg.
     bind (sum_sel sel, lg) (\<lambda>total lg.
     bind (py_round2 total, lg @ [Info_total total]) (\<lambda>rounded lg.
     (Ok \<lparr> answer = rounded, email = ''user@example.com'', exam = ''tds-2025-05-roe'' \<rparr>,
      lg))))))))))))"

text \<open>Lines 113 to 142: the emptiness check, the header names and the two columns.\<close>

definition analyze_frame :: "pylib \<Rightarrow> dataframe \<Rightarrow> log \<Rightarrow> analysis res \<times> log" where
  "analyze_frame L df0 lg0 =
     (if df_empty df0
      then (Raise (HTTPException 400 ''CSV file contains no data'' None), lg0)
      else
        let lg1 = lg0 @ [Info_columns (map fst df0), Info_shape (nrows df0) (length df0)];
            df = set_columns (map (\<lambda>c. str_lower L (strip c)) (map fst df0)) df0;
            amount_col = detect_column amount_keywords (map fst df);
            category_col = detect_column category_keywords (map fst df)
        in (case amount_col of
              None \<Rightarrow>
                (Raise (HTTPException 400 ''Could not identify amount column in CSV'' None),
                 lg1)
            | Some a \<Rightarrow>
                (case category_col of
                   None \<Rightarrow>
                     (Raise (HTTPException 400
                        ''Could not identify category column in CSV'' None), lg1)
                 | Some c \<Rightarrow> total_food_spending L df a c lg1)))"

text \<open>
  Lines 87 to 172: the body in its outer \<^verbatim>\<open>try\<close>. An \<^verbatim>\<open>HTTPException\<close> is raised
  again as it is; any other exception is logged and becomes the status 500.
\<close>

definition analyze_expenses :: "pylib \<Rightarrow> string \<Rightarrow> log \<Rightarrow> analysis res \<times> log" where
  "analyze_expenses L contents lg0 =
     (case bind (decode_contents contents, lg0) (\<lambda>csv_string lg.
           bind (parse_csv L csv_string, lg) (analyze_frame L)) of
        (Raise (HTTPException status detail e), lg) \<Rightarrow>
          (Raise (HTTPException status detail e), lg)
      | (Raise e, lg) \<Rightarrow>
          (Raise (HTTPException 500 ''Internal server error: '' (Some e)),
           lg @ [Error_unexpected e])
      | r \<Rightarrow> r)"

section \<open>An instance of the library\<close>

text \<open>
  A reader for plain comma-separated text, to run the model on concrete inputs: lines
  end at a line feed, blank lines are skipped, fields are separated by commas and lose
  their leading spaces, the first line holds the labels, a line with more fields than
  the labels is a tokenizing error (its message is shortened here), a shorter one is
  filled with the missing marker, and the fields of the default missing-value list are
  the missing marker. It gives what pandas gives on text without quotes or carriage
  returns, with distinct non-empty labels, whose first data line has no more fields
  than the header, and in which every column is empty or holds a field that is no
  number and no truth value (so that pandas keeps the fields as strings). The theorems
  below hold for every library; this one only provides their instances.
\<close>

fun split_on :: "nat \<Rightarrow> ustr \<Rightarrow> ustr list" where
  "split_on sep [] = [[]]"
| "split_on sep (c # cs) =
     (case split_on sep cs of
        [] \<Rightarrow> [[c]]
      | f # fs \<Rightarrow> if c = sep then [] # f # fs else (c # f) # fs)"

definition csv_records :: "ustr \<Rightarrow> ustr list list" where
  "csv_records text =
     map (\<lambda>line. map (dropWhile (\<lambda>c. c = 32)) (split_on 44 line))
       (filter (\<lambda>line. \<not> list_all (\<lambda>c. c = 32 \<or> c = 9) line) (split_on 10 text))"

definition na_values :: "ustr list" where
  "na_values = map u
     ['''', ''#N/A'', ''#N/A N/A'', ''#NA'', ''-1.#IND'', ''-1.#QNAN'', ''-NaN'', ''-nan'',
      ''1.#IND'', ''1.#QNAN'', ''<NA>'', ''N/A'', ''NA'', ''NULL'', ''NaN'', ''None'',
      ''n/a'', ''nan'', ''null'']"

definition field_cell :: "ustr \<Rightarrow> cell" where
  "field_cell f = (if f \<in> set na_values then CFloat NaN else CStr f)"

definition plain_read_csv :: "ustr \<Rightarrow> pyexc + dataframe" where
  "plain_read_csv text =
     (case csv_records text of
        [] \<Rightarrow> Inl EmptyDataError
      | header # rows \<Rightarrow>
          if list_ex (\<lambda>row. length header < length row) rows
          then Inl (ParserError ''Error tokenizing data'')
          else Inr (map (\<lambda>i. (header ! i,
                               map (\<lambda>row. if i < length row then field_cell (row ! i)
                                          else CFloat NaN) rows))
                      [0..<length header]))"

definition plain_lib :: pylib where
  "plain_lib =
     \<lparr> str_decimal = ascii_decimal,
       str_lower = map ascii_lower,
       float_repr = (\<lambda>r. []),
       read_csv = plain_read_csv \<rparr>"

section \<open>Properties of the helper functions\<close>

lemma unicode_on_ascii_plain_lib: "unicode_on_ascii plain_lib"
  by (simp add: unicode_on_ascii_def plain_lib_def)

lemma decimal_on_ascii: "unicode_on_ascii L \<Longrightarrow> c < 128 \<Longrightarrow> str_decimal L c = ascii_decimal c"
  by (simp add: unicode_on_ascii_def)

lemma lower_on_ascii: "unicode_on_ascii L \<Longrightarrow> is_ascii s \<Longrightarrow> str_lower L s = map ascii_lower s"
  by (simp add: unicode_on_ascii_def)

lemma contains_sublist: "contains k s = sublist k s"
  by (induction s) (simp_all add: sublist_Cons_right)






lemma detect_column_None:
  "(detect_column kws hs = None) = (\<forall>h \<in> set hs. \<not> (\<exists>k \<in> set kws. sublist k h))"
  by (induction hs) (auto simp: list_ex_iff contains_sublist)

lemma detect_column_Some:
  "(detect_column kws hs = Some h) =
     (\<exists>i < length hs. hs ! i = h \<and> (\<exists>k \<in> set kws. sublist k h)
        \<and> (\<forall>j < i. \<not> (\<exists>k \<in> set kws. sublist k (hs ! j))))"
proof (induction hs)
  case Nil
  then show ?case by simp
next
  case (Cons x xs)
  show ?case
  proof (cases "\<exists>k \<in> set kws. sublist k x")
    case True
    have "(\<exists>i < length (x # xs). (x # xs) ! i = h \<and> (\<exists>k \<in> set kws. sublist k h)
        \<and> (\<forall>j < i. \<not> (\<exists>k \<in> set kws. sublist k ((x # xs) ! j)))) = (x = h)"
    proof
      assume "\<exists>i < length (x # xs). (x # xs) ! i = h \<and> (\<exists>k \<in> set kws. sublist k h)
        \<and> (\<forall>j < i. \<not> (\<exists>k \<in> set kws. sublist k ((x # xs) ! j)))"
      then obtain i where i: "(x # xs) ! i = h" "\<forall>j < i. \<not> (\<exists>k \<in> set kws. sublist k ((x # xs) ! j))"
        by blast
      have "i = 0"
      proof (rule ccontr)
        assume "i \<noteq> 0"
        then have "0 < i" by simp
        with i(2) have "\<not> (\<exists>k \<in> set kws. sublist k ((x # xs) ! 0))" by blast
        with True show False by simp
      qed
      with i(1) show "x = h" by simp
    next
      assume "x = h"
      with True show "\<exists>i < length (x # xs). (x # xs) ! i = h \<and> (\<exists>k \<in> set kws. sublist k h)
        \<and> (\<forall>j < i. \<not> (\<exists>k \<in> set kws. sublist k ((x # xs) ! j)))"
        by (intro exI [of _ 0]) simp
    qed
    with True show ?thesis
      by (auto simp: list_ex_iff contains_sublist)
  next
    case False
    have "(\<exists>i < length (x # xs). (x # xs) ! i = h \<and> (\<exists>k \<in> set kws. sublist k h)
        \<and> (\<forall>j < i. \<not> (\<exists>k \<in> set kws. sublist k ((x # xs) ! j))))
      = (\<exists>i < length xs. xs ! i = h \<and> (\<exists>k \<in> set kws. sublist k h)
        \<and> (\<forall>j < i. \<not> (\<exists>k \<in> set kws. sublist k (xs ! j))))" (is "?L = ?R")
    proof
      assume ?L
      then obtain i where i: "i < length (x # xs)" "(x # xs) ! i = h" "\<exists>k \<in> set kws. sublist k h"
        "\<forall>j < i. \<not> (\<exists>k \<in> set kws. sublist k ((x # xs) ! j))"
        by blast
      with False have "i \<noteq> 0" by (cases i) auto
      then obtain i' where i': "i = Suc i'" by (cases i) auto
      have "\<forall>j < i'. \<not> (\<exists>k \<in> set kws. sublist k (xs ! j))"
      proof (intro allI impI)
        fix j assume "j < i'"
        then have "Suc j < i" using i' by simp
        with i(4) have "\<not> (\<exists>k \<in> set kws. sublist k ((x # xs) ! Suc j))" by blast
        then show "\<not> (\<exists>k \<in> set kws. sublist k (xs ! j))" by simp
      qed
      with i i' show ?R by (intro exI [of _ i']) simp
    next
      assume ?R
      then obtain i where i: "i < length xs" "xs ! i = h" "\<exists>k \<in> set kws. sublist k h"
        "\<forall>j < i. \<not> (\<exists>k \<in> set kws. sublist k (xs ! j))"
        by blast
      have "\<forall>j < Suc i. \<not> (\<exists>k \<in> set kws. sublist k ((x # xs) ! j))"
      proof (intro allI impI)
        fix j assume j: "j < Suc i"
        show "\<not> (\<exists>k \<in> set kws. sublist k ((x # xs) ! j))"
        proof (cases j)
          case 0
          with False show ?thesis by simp
        next
          case (Suc j')
          with j i(4) show ?thesis by simp
        qed
      qed
      with i show ?L by (intro exI [of _ "Suc i"]) simp
    qed
    with False Cons show ?thesis
      by (simp add: list_ex_iff contains_sublist)
  qed
qed

section \<open>The Value Normalizer on the examples of the specification\<close>

lemmas amount_eval =
  u_def strip_def py_isspace_def currency_chars_def startswith_def endswith_def
  py_float_def decimal_value_def amount_token_def is_decimal_def ascii_decimal_def
  to_double_def dbl_overflow_def isna_def

text \<open>
  Claim C2. \<^verbatim>\<open>clean_amount\<close> maps the strings \<^verbatim>\<open>"$1,234.56"\<close>, \<^verbatim>\<open>"(50.00)"\<close>, the euro
  sign followed by \<^verbatim>\<open>99\<close>, \<^verbatim>\<open>""\<close> and \<^verbatim>\<open>"n/a"\<close> to 1234.56, -50.0, 99.0, 0.0 and 0.0,
  whatever the state of the log; only the last call logs a warning (the cleaned token
  is empty and \<^verbatim>\<open>float\<close> raises \<^verbatim>\<open>ValueError\<close>). The library is any one whose tables
  are those of Unicode on the ASCII range.
\<close>

theorem clean_amount_examples:
  assumes "unicode_on_ascii L"
  shows "clean_amount L (Scalar (CStr (u ''$1,234.56''))) lg = (Ok (Finite (123456 / 100)), lg)
   \<and> clean_amount L (Scalar (CStr (u ''(50.00)''))) lg = (Ok (Finite (- 50)), lg)
   \<and> clean_amount L (Scalar (CStr (8364 # u ''99''))) lg = (Ok (Finite 99), lg)
   \<and> clean_amount L (Scalar (CStr (u ''''))) lg = (Ok (Finite 0), lg)
   \<and> clean_amount L (Scalar (CStr (u ''n/a''))) lg = (Ok (Finite 0), lg @ [Warning_amount []])"
proof -
  note d = decimal_on_ascii [OF assms]
  show ?thesis
    by (simp add: amount_eval d)
qed

theorem clean_amount_examples_witness:
  "unicode_on_ascii plain_lib
   \<and> clean_amount plain_lib (Scalar (CStr (u ''$1,234.56''))) [] = (Ok (Finite (123456 / 100)), [])
   \<and> clean_amount plain_lib (Scalar (CStr (u ''(50.00)''))) [] = (Ok (Finite (- 50)), [])
   \<and> clean_amount plain_lib (Scalar (CStr (8364 # u ''99''))) [] = (Ok (Finite 99), [])
   \<and> clean_amount plain_lib (Scalar (CStr (u ''''))) [] = (Ok (Finite 0), [])
   \<and> clean_amount plain_lib (Scalar (CStr (u ''n/a''))) [] = (Ok (Finite 0), [Warning_amount []])"
  using clean_amount_examples [OF unicode_on_ascii_plain_lib, of "[]"] unicode_on_ascii_plain_lib
  by simp

section \<open>The Food Classifier\<close>

lemmas food_eval =
  is_ascii_def u_def ascii_lower_def strip_def py_isspace_def food_keywords_def


lemma plain_lower: "str_lower plain_lib s = map ascii_lower s"
  by (simp add: plain_lib_def)


section \<open>The Column Detector\<close>

lemma detect_column_mentions:
  "(detect_column kws hs = Some h) = first_header (mentions kws) hs h"
  "(detect_column kws hs = None) = (\<forall>h \<in> set hs. \<not> mentions kws h)"
  unfolding first_header_def mentions_def
  by (rule detect_column_Some, rule detect_column_None)

lemmas detect_eval = amount_keywords_def category_keywords_def u_def

text \<open>
  Claim C4. On every list of header names the loop for the amount column returns the
  first header, in the order of the list, that contains one of \<^verbatim>\<open>amount\<close>, \<^verbatim>\<open>cost\<close>,
  \<^verbatim>\<open>price\<close>, \<^verbatim>\<open>total\<close>, \<^verbatim>\<open>sum\<close>, \<^verbatim>\<open>expense\<close>, and none when no header does; the loop
  for the category column does the same with \<^verbatim>\<open>category\<close>, \<^verbatim>\<open>type\<close>, \<^verbatim>\<open>description\<close>,
  \<^verbatim>\<open>item\<close>, and neither result depends on the other keyword list. On the headers
  \<^verbatim>\<open>date\<close>, \<^verbatim>\<open>category\<close>, \<^verbatim>\<open>amount ($)\<close> they return \<^verbatim>\<open>amount ($)\<close> and \<^verbatim>\<open>category\<close>.
\<close>

theorem detect_column_first_match:
  "(detect_column amount_keywords hs = Some h) =
     first_header (mentions (map u [''amount'', ''cost'', ''price'', ''total'', ''sum'', ''expense''])) hs h
   \<and> (detect_column amount_keywords hs = None) =
     (\<forall>h \<in> set hs. \<not> mentions (map u [''amount'', ''cost'', ''price'', ''total'', ''sum'', ''expense'']) h)
   \<and> (detect_column category_keywords hs = Some h) =
     first_header (mentions (map u [''category'', ''type'', ''description'', ''item''])) hs h
   \<and> (detect_column category_keywords hs = None) =
     (\<forall>h \<in> set hs. \<not> mentions (map u [''category'', ''type'', ''description'', ''item'']) h)
   \<and> detect_column amount_keywords [u ''date'', u ''category'', u ''amount ($)''] = Some (u ''amount ($)'')
   \<and> detect_column category_keywords [u ''date'', u ''category'', u ''amount ($)''] = Some (u ''category'')"
proof (intro conjI)
  show "detect_column amount_keywords [u ''date'', u ''category'', u ''amount ($)''] = Some (u ''amount ($)'')"
    by (simp add: detect_eval)
  show "detect_column category_keywords [u ''date'', u ''category'', u ''amount ($)''] = Some (u ''category'')"
    by (simp add: detect_eval)
qed (simp_all only: detect_column_mentions amount_keywords_def category_keywords_def)

theorem detect_column_first_match_witness:
  "detect_column amount_keywords [u ''total cost'', u ''type'', u ''amount''] = Some (u ''total cost'')
   \<and> first_header (mentions amount_keywords) [u ''total cost'', u ''type'', u ''amount''] (u ''total cost'')
   \<and> detect_column category_keywords [u ''total cost'', u ''type'', u ''amount''] = Some (u ''type'')
   \<and> detect_column category_keywords [u ''date'', u ''notes''] = None
   \<and> \<not> mentions category_keywords (u ''notes'')"
proof -
  note t = detect_column_first_match [of "[u ''total cost'', u ''type'', u ''amount'']" "u ''total cost''"]
  note n = detect_column_first_match [of "[u ''date'', u ''notes'']"]
  have a: "detect_column amount_keywords [u ''total cost'', u ''type'', u ''amount''] = Some (u ''total cost'')"
    by (simp add: detect_eval)
  have c: "detect_column category_keywords [u ''total cost'', u ''type'', u ''amount''] = Some (u ''type'')"
    by (simp add: detect_eval)
  have d: "detect_column category_keywords [u ''date'', u ''notes''] = None"
    by (simp add: detect_eval)
  from a t have "first_header (mentions amount_keywords) [u ''total cost'', u ''type'', u ''amount''] (u ''total cost'')"
    by (simp add: amount_keywords_def)
  moreover from d n have "\<not> mentions category_keywords (u ''notes'')"
    by (simp add: category_keywords_def)
  ultimately show ?thesis using a c d by simp
qed

section \<open>Decoding never fails\<close>

lemma decode_trace_cases:
  "decode_trace contents =
     (case decode_utf8 (map of_char contents) of
        Some s \<Rightarrow> ([Utf8], Ok s)
      | None \<Rightarrow> ([Utf8, Latin1], Ok (map of_char contents)))"
  by (simp add: decode_trace_def decode_latin1_def split: option.splits)

text \<open>
  Claim C8. On every byte sequence the decode stage yields a string. \<^verbatim>\<open>utf-8\<close> is tried
  first; when it fails \<^verbatim>\<open>latin-1\<close> is tried and accepts the bytes, each as the code
  point of its number. \<^verbatim>\<open>cp1252\<close> is never tried and \<^verbatim>\<open>UnicodeDecodeError\<close> never leaves
  the stage.
\<close>

theorem decode_contents_succeeds:
  "(\<exists>s. decode_contents contents = Ok s)
   \<and> decode_trace contents =
       (case decode_utf8 (map of_char contents) of
          Some s \<Rightarrow> ([Utf8], Ok s)
        | None \<Rightarrow> ([Utf8, Latin1], Ok (map of_char contents)))
   \<and> hd (fst (decode_trace contents)) = Utf8
   \<and> Cp1252 \<notin> set (fst (decode_trace contents))
   \<and> decode_contents contents \<noteq> Raise UnicodeDecodeError"
  by (simp add: decode_contents_def decode_trace_cases split: option.splits)

theorem decode_contents_succeeds_witness:
  "decode_trace [CHR 0x41, CHR 0xFF] = ([Utf8, Latin1], Ok [65, 255])
   \<and> decode_contents [CHR 0x41, CHR 0xFF] = Ok [65, 255]
   \<and> decode_trace [CHR 0xE2, CHR 0x82, CHR 0xAC, CHR 0x39] = ([Utf8], Ok [8364, 57])
   \<and> decode_cp1252 [65, 129] = None"
proof -
  have a: "decode_utf8 (map of_char [CHR 0x41, CHR 0xFF]) = None"
    by simp
  have b: "decode_utf8 (map of_char [CHR 0xE2, CHR 0x82, CHR 0xAC, CHR 0x39]) = Some [8364, 57]"
    by (simp add: is_cont_def)
  have c: "decode_cp1252 [65, 129] = None"
    by (simp add: cp1252_char_def cp1252_high_def)
  show ?thesis
    using decode_contents_succeeds [of "[CHR 0x41, CHR 0xFF]"]
      decode_contents_succeeds [of "[CHR 0xE2, CHR 0x82, CHR 0xAC, CHR 0x39]"] a b c
    by (simp add: decode_contents_def)
qed

section \<open>The Value Normalizer never raises\<close>

lemma dbl_overflow_pos: "0 < dbl_overflow"
  by (simp add: dbl_overflow_def)

lemma is_finite_to_double: "is_finite (to_double r) = (\<bar>r\<bar> < dbl_overflow)"
  using dbl_overflow_pos by (auto simp: to_double_def)

lemma to_double_not_NaN: "to_double r \<noteq> NaN"
  by (simp add: to_double_def)

lemma clean_amount_scalar:
  "clean_amount L (Scalar c) lg =
     (if isna c \<or> c = CStr [] then (Ok (Finite 0), lg)
      else case decimal_value L (amount_token L c) of
             None \<Rightarrow> (Ok (Finite 0), lg @ [Warning_amount (amount_token L c)])
           | Some r \<Rightarrow> (Ok (to_double r), lg))"
  by (simp add: py_float_def split: option.splits)

declare clean_amount.simps(2) [simp del]

lemma clean_amount_value:
  "\<exists>v w. clean_amount L (Scalar c) lg = (Ok v, lg @ w)
      \<and> v \<noteq> NaN
      \<and> (isna c \<or> c = CStr [] \<longrightarrow> v = Finite 0)
      \<and> (decimal_value L (amount_token L c) = None \<longrightarrow> v = Finite 0)
      \<and> (\<forall>r. \<not> isna c \<and> c \<noteq> CStr [] \<and> decimal_value L (amount_token L c) = Some r \<longrightarrow>
            v = to_double r \<and> is_finite v = (\<bar>r\<bar> < dbl_overflow))"
proof (cases "isna c \<or> c = CStr []")
  case True
  then show ?thesis
    by (intro exI [of _ "Finite 0"] exI [of _ "[]"]) (auto simp: clean_amount_scalar)
next
  case False
  show ?thesis
  proof (cases "decimal_value L (amount_token L c)")
    case None
    with False show ?thesis
      by (intro exI [of _ "Finite 0"] exI [of _ "[Warning_amount (amount_token L c)]"])
        (auto simp: clean_amount_scalar)
  next
    case (Some r)
    with False show ?thesis
      by (intro exI [of _ "to_double r"] exI [of _ "[]"])
        (auto simp: clean_amount_scalar is_finite_to_double to_double_not_NaN)
  qed
qed

lemma apply_cells_clean_amount:
  "\<exists>vs w. apply_cells (clean_amount L) xs lg = (Ok vs, lg @ w) \<and> length vs = length xs"
proof (induction xs arbitrary: lg)
  case Nil
  then show ?case by simp
next
  case (Cons x xs)
  from clean_amount_value [of L x lg]
  obtain v w1 where h: "clean_amount L (Scalar x) lg = (Ok v, lg @ w1)"
    by blast
  from Cons [of "lg @ w1"] obtain vs w2 where
    t: "apply_cells (clean_amount L) xs (lg @ w1) = (Ok vs, (lg @ w1) @ w2)" "length vs = length xs"
    by blast
  show ?case
    using h t by (intro exI [of _ "v # vs"] exI [of _ "w1 @ w2"]) simp
qed

text \<open>
  Claim C7, as amended. On every cell (a string, an integer, a float, a truth value or
  the missing marker) \<^verbatim>\<open>clean_amount\<close> returns a float and raises nothing, and so does
  \<^verbatim>\<open>apply\<close> of it on a column of any cells. The float is no NaN. It is 0.0 when the
  cell is missing or the empty string, and 0.0 when the cleaned token is no decimal
  numeral. Otherwise it is the value of the numeral, which is finite exactly when its
  magnitude is below the overflow threshold of the doubles; at or beyond it the result
  is an infinity.
\<close>

theorem clean_amount_never_raises:
  "(\<exists>v w. clean_amount L (Scalar c) lg = (Ok v, lg @ w)
      \<and> v \<noteq> NaN
      \<and> (isna c \<or> c = CStr [] \<longrightarrow> v = Finite 0)
      \<and> (decimal_value L (amount_token L c) = None \<longrightarrow> v = Finite 0)
      \<and> (\<forall>r. \<not> isna c \<and> c \<noteq> CStr [] \<and> decimal_value L (amount_token L c) = Some r \<longrightarrow>
            v = to_double r \<and> is_finite v = (\<bar>r\<bar> < dbl_overflow)))
   \<and> (\<exists>vs w. apply_cells (clean_amount L) xs lg = (Ok vs, lg @ w) \<and> length vs = length xs)"
  using clean_amount_value [of L c lg] apply_cells_clean_amount [of L xs lg] by blast

lemma digits_val_nines:
  "str_decimal L 57 = Some 9 \<Longrightarrow>
     digits_val L (replicate n 57) acc = acc * 10 ^ n + (10 ^ n - 1)"
proof (induction n arbitrary: acc)
  case 0
  then show ?case by simp
next
  case (Suc n)
  have "(1::nat) \<le> 10 ^ n" by simp
  then show ?case using Suc by (simp add: algebra_simps)
qed

lemma amount_token_nines:
  assumes "str_decimal L 57 = Some 9"
  shows "amount_token L (CStr (replicate n 57)) = replicate n 57"
proof -
  have s: "strip (replicate n 57) = replicate n 57"
    by (simp add: strip_def py_isspace_def dropWhile_replicate)
  have f: "filter (\<lambda>ch. ch \<notin> set currency_chars) (replicate n 57) = replicate n 57"
    by (simp add: currency_chars_def)
  have p: "\<not> startswith (replicate n 57) 40"
    by (cases n) (simp_all add: startswith_def)
  have g: "filter (\<lambda>ch. is_decimal L ch \<or> ch = 46 \<or> ch = 45) (replicate n 57) = replicate n 57"
    using assms by (simp add: is_decimal_def)
  show ?thesis
    by (simp add: amount_token_def s f p g)
qed

lemma decimal_value_nines:
  assumes "str_decimal L 57 = Some 9" and "0 < n"
  shows "decimal_value L (replicate n 57) = Some (10 ^ n - 1)"
proof -
  have sg: "split_sign (replicate n 57) = (False, replicate n 57)"
    using assms(2) by (cases n) simp_all
  have d: "is_decimal L 57"
    using assms(1) by (simp add: is_decimal_def)
  have "(1::nat) \<le> 10 ^ n" by simp
  then have v: "rat_of_nat (10 ^ n - 1) = 10 ^ n - 1"
    by (simp add: of_nat_diff)
  show ?thesis
    using assms(2) d v
    by (simp add: decimal_value_def sg takeWhile_replicate dropWhile_replicate
        digits_val_nines [OF assms(1)])
qed

text \<open>
  Claim C7 as stated fails: the amount is not always finite. On the string of four
  hundred nines the cleaned token is the string itself, \<^verbatim>\<open>float\<close> reads it as positive
  infinity and \<^verbatim>\<open>clean_amount\<close> returns that.
\<close>

theorem clean_amount_infinite:
  "clean_amount plain_lib (Scalar (CStr (replicate 400 57))) [] = (Ok PosInf, [])
   \<and> \<not> is_finite PosInf"
proof -
  have nine: "str_decimal plain_lib 57 = Some 9"
    by (simp add: plain_lib_def ascii_decimal_def)
  have ne: "CStr (replicate 400 57) \<noteq> CStr []"
    by simp
  have big: "dbl_overflow \<le> 10 ^ 400 - 1"
    by (simp add: dbl_overflow_def)
  have "clean_amount plain_lib (Scalar (CStr (replicate 400 57))) [] =
          (Ok (to_double (10 ^ 400 - 1)), [])"
    using ne by (simp add: clean_amount_scalar isna_def amount_token_nines [OF nine]
        decimal_value_nines [OF nine])
  then show ?thesis
    using big by (simp add: to_double_def)
qed

theorem clean_amount_never_raises_witness:
  "\<not> isna (CStr (u ''(5.00)'')) \<and> CStr (u ''(5.00)'') \<noteq> CStr []
   \<and> decimal_value plain_lib (amount_token plain_lib (CStr (u ''(5.00)''))) = Some (- 5)
   \<and> clean_amount plain_lib (Scalar (CStr (u ''(5.00)''))) [] = (Ok (Finite (- 5)), [])
   \<and> isna (CFloat NaN)
   \<and> clean_amount plain_lib (Scalar (CFloat NaN)) [] = (Ok (Finite 0), [])
   \<and> decimal_value plain_lib (amount_token plain_lib (CStr (u ''1-2''))) = None
   \<and> clean_amount plain_lib (Scalar (CStr (u ''1-2''))) [] = (Ok (Finite 0), [Warning_amount (u ''1-2'')])"
proof -
  have a: "decimal_value plain_lib (amount_token plain_lib (CStr (u ''(5.00)''))) = Some (- 5)"
    by (simp add: amount_eval plain_lib_def)
  have b: "decimal_value plain_lib (amount_token plain_lib (CStr (u ''1-2''))) = None"
    by (simp add: amount_eval plain_lib_def)
  have t: "amount_token plain_lib (CStr (u ''1-2'')) = u ''1-2''"
    by (simp add: amount_eval plain_lib_def)
  have n: "CStr (u ''(5.00)'') \<noteq> CStr []" "CStr (u ''1-2'') \<noteq> CStr []"
    by (simp_all add: u_def)
  have f: "to_double (- 5) = Finite (- 5)"
    by (simp add: to_double_def dbl_overflow_def)
  show ?thesis
    using clean_amount_never_raises [of plain_lib "CStr (u ''(5.00)'')" "[]" "[]"]
      clean_amount_never_raises [of plain_lib "CFloat NaN" "[]" "[]"]
      clean_amount_never_raises [of plain_lib "CStr (u ''1-2'')" "[]" "[]"]
      a b t n f
    by (auto simp: isna_def clean_amount_scalar)
qed

section \<open>The pipeline and its log\<close>

lemma bind_simps [simp]:
  "bind (Ok x, lg) f = f x lg"
  "bind (Raise e, lg) f = (Raise e, lg)"
  "bind (Unmodelled, lg) f = (Unmodelled, lg)"
  by (simp_all add: bind_def)















section \<open>The errors of the pipeline\<close>

lemma no_http_bind:
  assumes "no_http m" and "\<And>x lg. no_http (f x lg)"
  shows "no_http (bind m f)"
proof (cases m)
  case (Pair r lg)
  show ?thesis
  proof (cases r)
    case (Ok x)
    with Pair assms(2) [of x lg] show ?thesis by simp
  next
    case (Raise e)
    with Pair assms(1) show ?thesis by (simp add: no_http_def)
  next
    case Unmodelled
    with Pair show ?thesis by (simp add: no_http_def)
  qed
qed

lemma no_http_Ok: "no_http (Ok x, lg)"
  by (simp add: no_http_def)

lemma no_http_getitem: "no_http (getitem df key, lg)"
  by (simp add: no_http_def getitem_def split: list.splits)

lemma no_http_setitem: "no_http (setitem df key vs, lg)"
  by (simp add: no_http_def setitem_def split: list.splits)

lemma no_http_clean_amount: "no_http (clean_amount L x lg)"
proof (cases x)
  case (Scalar c)
  from clean_amount_value [of L c lg] show ?thesis
    by (auto simp: no_http_def Scalar)
next
  case (SeriesObj xs)
  then show ?thesis by (simp add: no_http_def)
qed

lemma no_http_clean_category: "no_http (pure (clean_category L) x lg)"
  by (cases x) (simp_all add: no_http_def pure_def)

lemma no_http_is_food_category: "no_http (pure (is_food_category L) x lg)"
proof (cases x)
  case (Scalar c)
  then show ?thesis
    by (cases c) (simp_all add: no_http_def pure_def Let_def)
next
  case (SeriesObj xs)
  then show ?thesis by (simp add: no_http_def pure_def)
qed

lemma no_http_apply_cells:
  assumes "\<And>x lg. no_http (f x lg)"
  shows "no_http (apply_cells f xs lg)"
proof (induction xs arbitrary: lg)
  case Nil
  then show ?case by (simp add: no_http_def)
next
  case (Cons x xs)
  obtain r lg1 where h: "f (Scalar x) lg = (r, lg1)"
    by (cases "f (Scalar x) lg")
  obtain r' lg2 where t: "apply_cells f xs lg1 = (r', lg2)"
    by (cases "apply_cells f xs lg1")
  from assms [of "Scalar x" lg] h have nh: "no_http (r, lg1)" by simp
  from Cons [of lg1] t have nt: "no_http (r', lg2)" by simp
  show ?case
    using nh nt by (cases r; cases r') (simp_all add: h t no_http_def)
qed

lemma no_http_apply_sel:
  assumes "\<And>x lg. no_http (f x lg)"
  shows "no_http (apply_sel f sel lg)"
proof (cases sel)
  case (Series xs)
  then show ?thesis
    using no_http_apply_cells [OF assms] by (simp add: apply_sel_def)
next
  case (Frame cs)
  show ?thesis
  proof (cases cs)
    case Nil
    then show ?thesis by (simp add: apply_sel_def Frame no_http_def)
  next
    case (Cons c cs')
    obtain r lg1 where h: "f (SeriesObj c) lg = (r, lg1)"
      by (cases "f (SeriesObj c) lg")
    from assms [of "SeriesObj c" lg] h have "no_http (r, lg1)" by simp
    then show ?thesis
      by (cases r) (simp_all add: apply_sel_def Frame Cons h no_http_def)
  qed
qed

lemma series_sum_no_raise: "series_sum col \<noteq> Raise e"
  by (cases col rule: series_sum.cases) (simp_all split: option.splits)

lemma no_http_sum_sel: "no_http (sum_sel sel, lg)"
  by (cases sel) (simp_all add: no_http_def sum_sel_def series_sum_no_raise split: res.splits)

lemma no_http_py_round2: "no_http (py_round2 x, lg)"
  by (cases x rule: py_round2.cases) (simp_all add: no_http_def Let_def)

lemmas no_http_intros =
  no_http_bind no_http_Ok no_http_getitem no_http_setitem no_http_apply_sel
  no_http_clean_amount no_http_clean_category no_http_is_food_category no_http_sum_sel
  no_http_py_round2

lemma no_http_total_food_spending: "no_http (total_food_spending L df a c lg)"
  unfolding total_food_spending_def
  by (intro no_http_intros | simp only: Let_def)+

lemma length_set_columns:
  "map fst (set_columns (map f (map fst df)) df) = map f (map fst df)"
  by (simp add: set_columns_def map_fst_zip)

text \<open>What the outer handler makes of the outcome of the body.\<close>

lemma analyze_expenses_frame:
  assumes "decode_contents contents = Ok text" and "read_csv L text = Inr df"
  shows "analyze_expenses L contents lg =
     (case analyze_frame L df lg of
        (Raise (HTTPException status detail e), lg') \<Rightarrow>
          (Raise (HTTPException status detail e), lg')
      | (Raise e, lg') \<Rightarrow>
          (Raise (HTTPException 500 ''Internal server error: '' (Some e)),
           lg' @ [Error_unexpected e])
      | r \<Rightarrow> r)"
  using assms by (simp add: analyze_expenses_def parse_csv_def)

lemma analyze_expenses_read_error:
  assumes "decode_contents contents = Ok text" and "read_csv L text = Inl e"
  shows "analyze_expenses L contents lg =
     (if e = EmptyDataError then (Raise (HTTPException 400 ''CSV file is empty'' None), lg)
      else (Raise (HTTPException 400 ''Error reading CSV: '' (Some e)), lg))"
  using assms by (cases e) (simp_all add: analyze_expenses_def parse_csv_def)

text \<open>
  The outcomes of the pipeline on a frame: the three errors of lines 113 to 142, or
  what the cleaning and the total give, where an exception becomes the status 500.
\<close>

lemma analyze_frame_cases:
  "analyze_frame L df lg =
     (if df_empty df then (Raise (HTTPException 400 ''CSV file contains no data'' None), lg)
      else
        let lg1 = lg @ [Info_columns (map fst df), Info_shape (nrows df) (length df)];
            hs = map (\<lambda>c. str_lower L (strip c)) (map fst df)
        in case detect_column amount_keywords hs of
             None \<Rightarrow>
               (Raise (HTTPException 400 ''Could not identify amount column in CSV'' None), lg1)
           | Some a \<Rightarrow>
               (case detect_column category_keywords hs of
                  None \<Rightarrow>
                    (Raise (HTTPException 400 ''Could not identify category column in CSV'' None),
                     lg1)
                | Some c \<Rightarrow> total_food_spending L (set_columns hs df) a c lg1))"
  unfolding analyze_frame_def Let_def length_set_columns by simp

lemma handler_no_http:
  assumes "no_http m" and "status = 400"
  shows "fst (case m of
        (Raise (HTTPException status detail e), lg') \<Rightarrow>
          (Raise (HTTPException status detail e), lg')
      | (Raise e, lg') \<Rightarrow>
          (Raise (HTTPException 500 ''Internal server error: '' (Some e)),
           lg' @ [Error_unexpected e])
      | r \<Rightarrow> r) \<noteq> Raise (HTTPException status detail e')"
proof (cases m)
  case (Pair r lg')
  show ?thesis
  proof (cases r)
    case (Raise e)
    with Pair assms show ?thesis
      by (cases e) (simp_all add: no_http_def)
  qed (simp_all add: Pair)
qed

text \<open>
  Claim C5, as amended. The search for the columns runs only on a frame that has a data
  row: lines 113 and 114 turn a frame without one away first. When the upload decodes
  and parses to a frame with at least one data row, and no header, stripped and
  lowercased, contains an amount keyword, the pipeline fails with the status 400 and
  the detail that names the amount column, whether or not a category column could be
  found. When some header contains an amount keyword and none contains a category
  keyword, it fails with the status 400 and the detail that names the category column.
  For the headers \<^verbatim>\<open>Date\<close> and \<^verbatim>\<open>Notes\<close> the error is the one of the amount column.
\<close>

theorem column_not_found:
  assumes "decode_contents contents = Ok text" and "read_csv L text = Inr df"
    and "\<not> df_empty df"
  shows "((\<forall>h \<in> set (map (\<lambda>c. str_lower L (strip c)) (map fst df)).
             \<not> mentions amount_keywords h) \<longrightarrow>
          fst (analyze_expenses L contents lg) =
            Raise (HTTPException 400 ''Could not identify amount column in CSV'' None))
   \<and> ((\<exists>h \<in> set (map (\<lambda>c. str_lower L (strip c)) (map fst df)). mentions amount_keywords h)
       \<and> (\<forall>h \<in> set (map (\<lambda>c. str_lower L (strip c)) (map fst df)).
             \<not> mentions category_keywords h) \<longrightarrow>
          fst (analyze_expenses L contents lg) =
            Raise (HTTPException 400 ''Could not identify category column in CSV'' None))
   \<and> (unicode_on_ascii L \<and> map fst df = [u ''Date'', u ''Notes''] \<longrightarrow>
          fst (analyze_expenses L contents lg) =
            Raise (HTTPException 400 ''Could not identify amount column in CSV'' None))"
proof (intro conjI impI)
  let ?hs = "map (\<lambda>c. str_lower L (strip c)) (map fst df)"
  note frame = analyze_expenses_frame [OF assms(1,2), of lg]
  {
    assume "\<forall>h \<in> set ?hs. \<not> mentions amount_keywords h"
    then have "detect_column amount_keywords ?hs = None"
      unfolding detect_column_mentions by blast
    then show "fst (analyze_expenses L contents lg) =
            Raise (HTTPException 400 ''Could not identify amount column in CSV'' None)"
      using assms(3) by (simp add: frame analyze_frame_cases Let_def)
  }
  {
    assume h: "(\<exists>h \<in> set ?hs. mentions amount_keywords h)
       \<and> (\<forall>h \<in> set ?hs. \<not> mentions category_keywords h)"
    then have c: "detect_column category_keywords ?hs = None"
      unfolding detect_column_mentions by blast
    from h have "detect_column amount_keywords ?hs \<noteq> None"
      unfolding detect_column_mentions by blast
    then obtain a where a: "detect_column amount_keywords ?hs = Some a"
      by blast
    show "fst (analyze_expenses L contents lg) =
            Raise (HTTPException 400 ''Could not identify category column in CSV'' None)"
      using assms(3) a c by (simp add: frame analyze_frame_cases Let_def)
  }
  {
    assume h: "unicode_on_ascii L \<and> map fst df = [u ''Date'', u ''Notes'']"
    then have l: "\<And>s. is_ascii s \<Longrightarrow> str_lower L s = map ascii_lower s"
      by (simp add: lower_on_ascii)
    have "?hs = [u ''date'', u ''notes'']"
      using h by (simp add: l is_ascii_def u_def strip_def py_isspace_def ascii_lower_def)
    moreover have "detect_column amount_keywords [u ''date'', u ''notes''] = None"
      by (simp add: detect_eval)
    ultimately show "fst (analyze_expenses L contents lg) =
            Raise (HTTPException 400 ''Could not identify amount column in CSV'' None)"
      using assms(3) by (simp add: frame analyze_frame_cases Let_def)
  }
qed

text \<open>
  Claim C6, as amended. The parse stage has three failures, each of the status 400.
  The detail is \<^verbatim>\<open>CSV file is empty\<close> exactly when the reader raises \<^verbatim>\<open>EmptyDataError\<close>
  (it found no columns to parse); it is \<^verbatim>\<open>Error reading CSV:\<close> followed by the reader's
  message exactly when the reader raises any other exception; it is
  \<^verbatim>\<open>CSV file contains no data\<close> exactly when the reader returns a frame that is empty
  (no data rows, or no columns). In particular a frame with a header and no data rows
  fails with the last one. No later stage gives any of these errors.
\<close>

theorem parse_stage_errors:
  assumes "decode_contents contents = Ok text"
  shows "(fst (analyze_expenses L contents lg) =
            Raise (HTTPException 400 ''CSV file is empty'' None))
          = (read_csv L text = Inl EmptyDataError)
   \<and> (fst (analyze_expenses L contents lg) =
            Raise (HTTPException 400 ''Error reading CSV: '' (Some e)))
          = (read_csv L text = Inl e \<and> e \<noteq> EmptyDataError)
   \<and> (fst (analyze_expenses L contents lg) =
            Raise (HTTPException 400 ''CSV file contains no data'' None))
          = (\<exists>df. read_csv L text = Inr df \<and> df_empty df)
   \<and> (read_csv L text = Inr df \<and> df \<noteq> [] \<and> nrows df = 0 \<longrightarrow>
        fst (analyze_expenses L contents lg) =
            Raise (HTTPException 400 ''CSV file contains no data'' None))"
proof (cases "read_csv L text")
  case (Inl e0)
  show ?thesis
    using analyze_expenses_read_error [OF assms Inl, of lg] Inl by auto
next
  case (Inr df0)
  note frame = analyze_expenses_frame [OF assms Inr, of lg]
  show ?thesis
  proof (cases "df_empty df0")
    case True
    then show ?thesis
      using Inr by (auto simp: frame analyze_frame_cases df_empty_def)
  next
    case False
    let ?hs = "map (\<lambda>c. str_lower L (strip c)) (map fst df0)"
    let ?lg1 = "lg @ [Info_columns (map fst df0), Info_shape (nrows df0) (length df0)]"
    have other: "fst (analyze_expenses L contents lg) \<noteq> Raise (HTTPException 400 d x)"
      if "d \<noteq> ''Could not identify amount column in CSV''"
        and "d \<noteq> ''Could not identify category column in CSV''" for d x
    proof (cases "detect_column amount_keywords ?hs")
      case None
      with False that show ?thesis
        by (simp add: frame analyze_frame_cases Let_def)
    next
      case a: (Some a)
      show ?thesis
      proof (cases "detect_column category_keywords ?hs")
        case None
        with False a that show ?thesis
          by (simp add: frame analyze_frame_cases Let_def)
      next
        case (Some c)
        have "analyze_frame L df0 lg = total_food_spending L (set_columns ?hs df0) a c ?lg1"
          using False a Some by (simp add: analyze_frame_cases Let_def)
        then show ?thesis
          unfolding frame
          using handler_no_http [OF no_http_total_food_spending, of 400 L "set_columns ?hs df0" a c ?lg1 d x]
          by simp
      qed
    qed
    show ?thesis
      using Inr False other [of "''CSV file is empty''" None]
        other [of "''Error reading CSV: ''" "Some e"]
        other [of "''CSV file contains no data''" None]
      by (auto simp: df_empty_def)
  qed
qed

section \<open>Runs of the pipeline on concrete uploads\<close>

lemmas decode_eval = decode_contents_def decode_trace_def u_def

lemmas reader_eval =
  plain_lib_def plain_read_csv_def csv_records_def field_cell_def na_values_def u_def

lemma plain_read_csv [simp]: "read_csv plain_lib = plain_read_csv"
  by (simp add: plain_lib_def)

lemma ragged_upload:
  "decode_contents ''Category,Amount\<newline>Lunch,$12.50\<newline>Rent,800,extra\<newline>'' =
     Ok (u ''Category,Amount\<newline>Lunch,$12.50\<newline>Rent,800,extra\<newline>'')"
  "csv_records (u ''Category,Amount\<newline>Lunch,$12.50\<newline>Rent,800,extra\<newline>'') =
     [[u ''Category'', u ''Amount''], [u ''Lunch'', u ''$12.50''],
      [u ''Rent'', u ''800'', u ''extra'']]"
  by (simp_all add: decode_eval csv_records_def)

lemma ragged_read:
  "plain_read_csv (u ''Category,Amount\<newline>Lunch,$12.50\<newline>Rent,800,extra\<newline>'') =
     Inl (ParserError ''Error tokenizing data'')"
  by (simp add: plain_read_csv_def ragged_upload(2))

lemma header_only_upload:
  "decode_contents ''Category,Amount\<newline>'' = Ok (u ''Category,Amount\<newline>'')"
  "plain_read_csv (u ''Category,Amount\<newline>'') = Inr [(u ''Category'', []), (u ''Amount'', [])]"
  by (simp_all add: decode_eval reader_eval)

lemma empty_upload:
  "decode_contents '''' = Ok []"
  "plain_read_csv [] = Inl EmptyDataError"
  by (simp_all add: decode_eval reader_eval)

lemma no_amount_upload:
  "decode_contents ''Date,Notes\<newline>2024-01-05,Lunch\<newline>'' =
     Ok (u ''Date,Notes\<newline>2024-01-05,Lunch\<newline>'')"
  "plain_read_csv (u ''Date,Notes\<newline>2024-01-05,Lunch\<newline>'') =
     Inr [(u ''Date'', [CStr (u ''2024-01-05'')]), (u ''Notes'', [CStr (u ''Lunch'')])]"
  by (simp_all add: decode_eval reader_eval)

lemma no_category_upload:
  "decode_contents ''Date,Cost\<newline>2024-01-05,$5\<newline>'' =
     Ok (u ''Date,Cost\<newline>2024-01-05,$5\<newline>'')"
  "plain_read_csv (u ''Date,Cost\<newline>2024-01-05,$5\<newline>'') =
     Inr [(u ''Date'', [CStr (u ''2024-01-05'')]), (u ''Cost'', [CStr (u ''$5'')])]"
  by (simp_all add: decode_eval reader_eval)

text \<open>
  Claim C6 as stated fails: the failure with the malformed-input detail does not need a
  text without parsable rows. The upload below has three parsable lines, the third with
  one field too many; the reader raises a tokenizing error, which is no
  \<^verbatim>\<open>EmptyDataError\<close>, and the pipeline fails with \<^verbatim>\<open>Error reading CSV\<close>.
\<close>

theorem parse_stage_ragged_rows:
  "csv_records (u ''Category,Amount\<newline>Lunch,$12.50\<newline>Rent,800,extra\<newline>'') =
     [[u ''Category'', u ''Amount''], [u ''Lunch'', u ''$12.50''],
      [u ''Rent'', u ''800'', u ''extra'']]
   \<and> read_csv plain_lib (u ''Category,Amount\<newline>Lunch,$12.50\<newline>Rent,800,extra\<newline>'') =
     Inl (ParserError ''Error tokenizing data'')
   \<and> analyze_expenses plain_lib ''Category,Amount\<newline>Lunch,$12.50\<newline>Rent,800,extra\<newline>'' [] =
     (Raise (HTTPException 400 ''Error reading CSV: ''
        (Some (ParserError ''Error tokenizing data''))), [])"
  using analyze_expenses_read_error [OF ragged_upload(1), of plain_lib _ "[]"]
  by (simp add: ragged_upload(2) ragged_read)

theorem parse_stage_errors_witness:
  "decode_contents ''Category,Amount\<newline>'' = Ok (u ''Category,Amount\<newline>'')
   \<and> read_csv plain_lib (u ''Category,Amount\<newline>'') = Inr [(u ''Category'', []), (u ''Amount'', [])]
   \<and> nrows [(u ''Category'', []), (u ''Amount'', [])] = 0
   \<and> fst (analyze_expenses plain_lib ''Category,Amount\<newline>'' []) =
       Raise (HTTPException 400 ''CSV file contains no data'' None)"
  using parse_stage_errors [OF header_only_upload(1), of plain_lib "[]" EmptyDataError
      "[(u ''Category'', []), (u ''Amount'', [])]"]
  by (simp add: header_only_upload nrows_def)

lemma header_only_no_amount:
  "decode_contents ''Date,Notes\<newline>'' = Ok (u ''Date,Notes\<newline>'')"
  "plain_read_csv (u ''Date,Notes\<newline>'') = Inr [(u ''Date'', []), (u ''Notes'', [])]"
  by (simp_all add: decode_eval reader_eval)

text \<open>
  Claim C5 as stated fails: it speaks of every dataset, and a dataset without a data
  row never reaches the search for the columns. The upload below is the header
  \<^verbatim>\<open>Date,Notes\<close> alone. No header contains an amount keyword, and the pipeline fails
  with \<^verbatim>\<open>CSV file contains no data\<close> (lines 113 and 114), an error that names no
  column.
\<close>

theorem column_not_found_header_only:
  "read_csv plain_lib (u ''Date,Notes\<newline>'') = Inr [(u ''Date'', []), (u ''Notes'', [])]
   \<and> str_lower plain_lib (strip (u ''Date'')) = u ''date''
   \<and> str_lower plain_lib (strip (u ''Notes'')) = u ''notes''
   \<and> detect_column amount_keywords [u ''date'', u ''notes''] = None
   \<and> fst (analyze_expenses plain_lib ''Date,Notes\<newline>'' []) =
       Raise (HTTPException 400 ''CSV file contains no data'' None)"
proof -
  have "df_empty [(u ''Date'', []), (u ''Notes'', [])]"
    by (simp add: df_empty_def nrows_def)
  then have "fst (analyze_expenses plain_lib ''Date,Notes\<newline>'' []) =
       Raise (HTTPException 400 ''CSV file contains no data'' None)"
    using analyze_expenses_frame [OF header_only_no_amount(1), of plain_lib _ "[]"]
    by (simp add: header_only_no_amount(2) analyze_frame_cases)
  moreover have "str_lower plain_lib (strip (u ''Date'')) = u ''date''"
    "str_lower plain_lib (strip (u ''Notes'')) = u ''notes''"
    by (simp_all add: plain_lower u_def strip_def py_isspace_def ascii_lower_def)
  moreover have "detect_column amount_keywords [u ''date'', u ''notes''] = None"
    by (simp add: detect_eval)
  ultimately show ?thesis
    by (simp add: header_only_no_amount(2))
qed

theorem column_not_found_witness:
  "decode_contents ''Date,Notes\<newline>2024-01-05,Lunch\<newline>'' =
     Ok (u ''Date,Notes\<newline>2024-01-05,Lunch\<newline>'')
   \<and> read_csv plain_lib (u ''Date,Notes\<newline>2024-01-05,Lunch\<newline>'') =
     Inr [(u ''Date'', [CStr (u ''2024-01-05'')]), (u ''Notes'', [CStr (u ''Lunch'')])]
   \<and> \<not> df_empty [(u ''Date'', [CStr (u ''2024-01-05'')]), (u ''Notes'', [CStr (u ''Lunch'')])]
   \<and> unicode_on_ascii plain_lib
   \<and> fst (analyze_expenses plain_lib ''Date,Notes\<newline>2024-01-05,Lunch\<newline>'' []) =
       Raise (HTTPException 400 ''Could not identify amount column in CSV'' None)
   \<and> fst (analyze_expenses plain_lib ''Date,Cost\<newline>2024-01-05,$5\<newline>'' []) =
       Raise (HTTPException 400 ''Could not identify category column in CSV'' None)"
proof -
  have ne: "\<not> df_empty [(u ''Date'', [CStr (u ''2024-01-05'')]), (u ''Notes'', [CStr (u ''Lunch'')])]"
    "\<not> df_empty [(u ''Date'', [CStr (u ''2024-01-05'')]), (u ''Cost'', [CStr (u ''$5'')])]"
    by (simp_all add: df_empty_def nrows_def)
  note a = column_not_found [OF no_amount_upload(1) _ ne(1), of plain_lib "[]"]
  note c = column_not_found [OF no_category_upload(1) _ ne(2), of plain_lib "[]"]
  have a': "fst (analyze_expenses plain_lib ''Date,Notes\<newline>2024-01-05,Lunch\<newline>'' []) =
       Raise (HTTPException 400 ''Could not identify amount column in CSV'' None)"
    using a unicode_on_ascii_plain_lib by (simp add: no_amount_upload(2))
  have hs: "map (\<lambda>c. str_lower plain_lib (strip c)) [u ''Date'', u ''Cost''] = [u ''date'', u ''cost'']"
    by (simp add: plain_lower u_def strip_def py_isspace_def ascii_lower_def)
  have m: "mentions amount_keywords (u ''cost'')" "\<not> mentions category_keywords (u ''date'')"
    "\<not> mentions category_keywords (u ''cost'')"
    unfolding mentions_def contains_sublist [symmetric] list_ex_iff [symmetric]
    by (simp_all add: detect_eval)
  have c': "fst (analyze_expenses plain_lib ''Date,Cost\<newline>2024-01-05,$5\<newline>'' []) =
       Raise (HTTPException 400 ''Could not identify category column in CSV'' None)"
    using c m hs by (simp add: no_category_upload(2))
  show ?thesis
    using a' c' ne(1) unicode_on_ascii_plain_lib no_amount_upload by simp
qed

section \<open>Runs that reach the cleaning stage\<close>

lemma analyze_expenses_Ok:
  assumes "decode_contents contents = Ok text" and "read_csv L text = Inr df"
    and "fst (analyze_frame L df lg) = Ok r"
  shows "fst (analyze_expenses L contents lg) = Ok r"
proof -
  obtain lg' where "analyze_frame L df lg = (Ok r, lg')"
    using assms(3) by (cases "analyze_frame L df lg") simp
  then show ?thesis
    by (simp add: analyze_expenses_frame [OF assms(1,2)])
qed








lemma duplicate_upload:
  "decode_contents ''Amount,amount,Category\<newline>$5,$6,Rent\<newline>'' =
     Ok (u ''Amount,amount,Category\<newline>$5,$6,Rent\<newline>'')"
  "plain_read_csv (u ''Amount,amount,Category\<newline>$5,$6,Rent\<newline>'') =
     Inr [(u ''Amount'', [CStr (u ''$5'')]), (u ''amount'', [CStr (u ''$6'')]),
          (u ''Category'', [CStr (u ''Rent'')])]"
  by (simp_all add: decode_eval reader_eval)

lemma duplicate_headers:
  "map (\<lambda>c. str_lower plain_lib (strip c)) [u ''Amount'', u ''amount'', u ''Category''] =
     [u ''amount'', u ''amount'', u ''category'']"
  by (simp add: plain_lower u_def strip_def py_isspace_def ascii_lower_def)

lemma duplicate_detect:
  "detect_column amount_keywords [u ''amount'', u ''amount'', u ''category''] = Some (u ''amount'')"
  "detect_column category_keywords [u ''amount'', u ''amount'', u ''category''] = Some (u ''category'')"
  by (simp_all add: detect_eval)

lemma rent_no_food:
  "clean_category plain_lib (Scalar (CStr (u ''Rent''))) = Ok (u ''rent'')"
  "is_food_category plain_lib (Scalar (CStr (u ''rent''))) = Ok False"
  by (simp_all add: plain_lower isna_def food_eval)

text \<open>
  A second upload without a food row that ends in the status 500. The headers
  \<^verbatim>\<open>Amount\<close> and \<^verbatim>\<open>amount\<close> become the same name, so that \<^verbatim>\<open>df[amount_col]\<close> is a
  \<^verbatim>\<open>DataFrame\<close>; \<^verbatim>\<open>apply\<close> hands \<^verbatim>\<open>clean_amount\<close> a whole column and the test of
  line 26 raises \<^verbatim>\<open>ValueError\<close>. There is one data row, both columns are detected and
  the category \<^verbatim>\<open>Rent\<close> is no food.
\<close>

theorem no_food_rows_duplicate_header:
  "read_csv plain_lib (u ''Amount,amount,Category\<newline>$5,$6,Rent\<newline>'') =
     Inr [(u ''Amount'', [CStr (u ''$5'')]), (u ''amount'', [CStr (u ''$6'')]),
          (u ''Category'', [CStr (u ''Rent'')])]
   \<and> detect_column amount_keywords [u ''amount'', u ''amount'', u ''category''] = Some (u ''amount'')
   \<and> detect_column category_keywords [u ''amount'', u ''amount'', u ''category''] = Some (u ''category'')
   \<and> clean_category plain_lib (Scalar (CStr (u ''Rent''))) = Ok (u ''rent'')
   \<and> is_food_category plain_lib (Scalar (CStr (u ''rent''))) = Ok False
   \<and> fst (analyze_expenses plain_lib ''Amount,amount,Category\<newline>$5,$6,Rent\<newline>'' []) =
       Raise (HTTPException 500 ''Internal server error: '' (Some ValueError))"
proof -
  let ?df = "[(u ''Amount'', [CStr (u ''$5'')]), (u ''amount'', [CStr (u ''$6'')]),
          (u ''Category'', [CStr (u ''Rent'')])]"
  have ne: "\<not> df_empty ?df"
    by (simp add: df_empty_def nrows_def)
  have sel: "getitem (set_columns [u ''amount'', u ''amount'', u ''category''] ?df) (u ''amount'') =
      Ok (Frame [[CStr (u ''$5'')], [CStr (u ''$6'')]])"
    by (simp add: getitem_def set_columns_def u_def)
  have hs: "map (\<lambda>c. str_lower plain_lib (strip c)) (map fst ?df) =
      [u ''amount'', u ''amount'', u ''category'']"
    using duplicate_headers by simp
  have "analyze_frame plain_lib ?df [] =
      total_food_spending plain_lib (set_columns [u ''amount'', u ''amount'', u ''category''] ?df)
        (u ''amount'') (u ''category'')
        ([] @ [Info_columns (map fst ?df), Info_shape (nrows ?df) (length ?df)])"
    unfolding analyze_frame_cases hs Let_def duplicate_detect using ne by simp
  moreover have "fst (total_food_spending plain_lib
        (set_columns [u ''amount'', u ''amount'', u ''category''] ?df)
        (u ''amount'') (u ''category'') lg) = Raise ValueError" for lg
    by (simp add: total_food_spending_def sel apply_sel_def)
  ultimately have "fst (analyze_frame plain_lib ?df []) = Raise ValueError"
    by simp
  then obtain lg' where "analyze_frame plain_lib ?df [] = (Raise ValueError, lg')"
    by (cases "analyze_frame plain_lib ?df []") simp
  then have "fst (analyze_expenses plain_lib ''Amount,amount,Category\<newline>$5,$6,Rent\<newline>'' []) =
       Raise (HTTPException 500 ''Internal server error: '' (Some ValueError))"
    using analyze_expenses_frame [OF duplicate_upload(1), of plain_lib ?df "[]"]
    by (simp add: duplicate_upload(2))
  then show ?thesis
    using duplicate_upload(2) duplicate_detect rent_no_food by simp
qed

lemma category_amount_headers:
  "unicode_on_ascii L \<Longrightarrow>
     map (\<lambda>c. str_lower L (strip c)) [u ''Category'', u ''Amount''] = [u ''category'', u ''amount'']"
  by (simp add: lower_on_ascii is_ascii_def u_def strip_def py_isspace_def ascii_lower_def)

lemma category_amount_detect:
  "detect_column amount_keywords [u ''category'', u ''amount''] = Some (u ''amount'')"
  "detect_column category_keywords [u ''category'', u ''amount''] = Some (u ''category'')"
  by (simp_all add: detect_eval)

section \<open>The three-row example\<close>

lemma example_amounts:
  assumes "unicode_on_ascii L"
  shows "apply_cells (clean_amount L) [CStr (u ''$12.50''), CStr (u ''800''), CStr (u ''(5.00)'')] lg =
           (Ok [Finite (25 / 2), Finite 800, Finite (- 5)], lg)"
proof -
  note d = decimal_on_ascii [OF assms]
  have "clean_amount L (Scalar (CStr (u ''$12.50''))) lg = (Ok (Finite (25 / 2)), lg)"
    "clean_amount L (Scalar (CStr (u ''800''))) lg = (Ok (Finite 800), lg)"
    "clean_amount L (Scalar (CStr (u ''(5.00)''))) lg = (Ok (Finite (- 5)), lg)"
    by (simp_all add: clean_amount.simps(2) amount_eval d)
  then show ?thesis by simp
qed

lemma example_categories:
  assumes "unicode_on_ascii L"
  shows "apply_cells (pure (clean_category L)) [CStr (u ''Lunch''), CStr (u ''Rent''), CStr (u ''Groceries'')] lg =
           (Ok [u ''lunch'', u ''rent'', u ''groceries''], lg)"
proof -
  have l: "\<And>s. is_ascii s \<Longrightarrow> str_lower L s = map ascii_lower s"
    using assms by (rule lower_on_ascii)
  have "clean_category L (Scalar (CStr (u ''Lunch''))) = Ok (u ''lunch'')"
    "clean_category L (Scalar (CStr (u ''Rent''))) = Ok (u ''rent'')"
    "clean_category L (Scalar (CStr (u ''Groceries''))) = Ok (u ''groceries'')"
    by (simp_all add: l isna_def food_eval)
  then show ?thesis by (simp add: pure_def)
qed

lemma example_food_mask:
  assumes "unicode_on_ascii L"
  shows "apply_cells (pure (is_food_category L)) [CStr (u ''lunch''), CStr (u ''rent''), CStr (u ''groceries'')] lg =
           (Ok [True, False, True], lg)"
proof -
  have l: "\<And>s. is_ascii s \<Longrightarrow> str_lower L s = map ascii_lower s"
    using assms by (rule lower_on_ascii)
  have "is_food_category L (Scalar (CStr (u ''lunch''))) = Ok True"
    "is_food_category L (Scalar (CStr (u ''rent''))) = Ok False"
    "is_food_category L (Scalar (CStr (u ''groceries''))) = Ok True"
    by (simp_all add: l food_eval)
  then show ?thesis by (simp add: pure_def)
qed

lemma example_exact:
  "exact_sum [25 / 2, - 5]" "exact_sum [15 / 2]" "exact_sum [750]"
  by code_simp+

lemma example_total:
  "series_sum (Float64, [CFloat (Finite (25 / 2)), CFloat (Finite (- 5))]) =
     Ok (CFloat (Finite (15 / 2)))"
  "py_round2 (CFloat (Finite (15 / 2))) = Ok (CFloat (Finite (15 / 2)))"
  by (simp_all add: example_exact round_half_even_def)

lemma example_frame:
  assumes "unicode_on_ascii L"
  shows "fst (total_food_spending L
      (set_columns [u ''category'', u ''amount'']
        [(u ''Category'', [CStr (u ''Lunch''), CStr (u ''Rent''), CStr (u ''Groceries'')]),
         (u ''Amount'', [CStr (u ''$12.50''), CStr (u ''800''), CStr (u ''(5.00)'')])])
      (u ''amount'') (u ''category'') lg) =
    Ok \<lparr> answer = CFloat (Finite (15 / 2)), email = ''user@example.com'',
         exam = ''tds-2025-05-roe'' \<rparr>"
proof -
  let ?cat = "[CStr (u ''Lunch''), CStr (u ''Rent''), CStr (u ''Groceries'')]"
  let ?amt = "[CStr (u ''$12.50''), CStr (u ''800''), CStr (u ''(5.00)'')]"
  let ?amounts = "[CFloat (Finite (25 / 2)), CFloat (Finite 800), CFloat (Finite (- 5))]"
  let ?cats = "[CStr (u ''lunch''), CStr (u ''rent''), CStr (u ''groceries'')]"
  let ?df = "[(u ''category'', ?cat), (u ''amount'', ?amt)]"
  let ?df1 = "[(u ''category'', ?cat), (u ''amount'', ?amt),
      (u ''amount'' @ u ''_clean'', ?amounts)]"
  let ?df2 = "[(u ''category'', ?cat), (u ''amount'', ?amt),
      (u ''amount'' @ u ''_clean'', ?amounts), (u ''category'' @ u ''_clean'', ?cats)]"
  have k: "u ''category'' \<noteq> u ''amount''" "u ''amount'' \<noteq> u ''category''"
    "u ''category'' \<noteq> u ''amount'' @ u ''_clean''"
    "u ''amount'' \<noteq> u ''amount'' @ u ''_clean''"
    "u ''category'' \<noteq> u ''category'' @ u ''_clean''"
    "u ''amount'' \<noteq> u ''category'' @ u ''_clean''"
    "u ''amount'' @ u ''_clean'' \<noteq> u ''category'' @ u ''_clean''"
    "u ''category'' @ u ''_clean'' \<noteq> u ''amount'' @ u ''_clean''"
    by (simp_all add: u_def)
  have df: "set_columns [u ''category'', u ''amount'']
        [(u ''Category'', ?cat), (u ''Amount'', ?amt)] = ?df"
    by (simp add: set_columns_def)
  have g1: "getitem ?df (u ''amount'') = Ok (Series ?amt)"
    using k by (simp add: getitem_def)
  have s1: "setitem ?df (u ''amount'' @ u ''_clean'') ?amounts = Ok ?df1"
    using k by (simp add: setitem_def)
  have g2: "getitem ?df1 (u ''category'') = Ok (Series ?cat)"
    using k by (simp add: getitem_def)
  have s2: "setitem ?df1 (u ''category'' @ u ''_clean'') ?cats = Ok ?df2"
    using k by (simp add: setitem_def)
  have g3: "getitem ?df2 (u ''category'' @ u ''_clean'') = Ok (Series ?cats)"
    using k by (simp add: getitem_def)
  have g4: "getitem (select_rows ?df2 [True, False, True]) (u ''amount'' @ u ''_clean'') =
      Ok (Series (Float64, [CFloat (Finite (25 / 2)), CFloat (Finite (- 5))]))"
    using k by (simp add: getitem_def select_rows_def infer_dtype_def)
  show ?thesis
    unfolding total_food_spending_def df
    by (simp add: g1 apply_sel_def example_amounts [OF assms] s1 g2
        example_categories [OF assms] s2 g3 example_food_mask [OF assms] Let_def g4
        sum_sel_def example_total
        del: apply_cells.simps series_sum.simps py_round2.simps)
qed

text \<open>
  Claim C1. When the upload decodes to a text that the reader parses to the header
  \<^verbatim>\<open>Category,Amount\<close> and the three rows (\<^verbatim>\<open>Lunch\<close>, \<^verbatim>\<open>$12.50\<close>), (\<^verbatim>\<open>Rent\<close>, \<^verbatim>\<open>800\<close>),
  (\<^verbatim>\<open>Groceries\<close>, \<^verbatim>\<open>(5.00)\<close>), all kept as strings, the pipeline succeeds and the answer
  is 7.5: the rows of \<^verbatim>\<open>Lunch\<close> and \<^verbatim>\<open>Groceries\<close> are kept, 12.5 and -5.0 are summed and
  the rounding to two decimals leaves 7.5.
\<close>

theorem three_row_example:
  assumes "unicode_on_ascii L"
    and "decode_contents contents = Ok text"
    and "read_csv L text =
           Inr [(u ''Category'', [CStr (u ''Lunch''), CStr (u ''Rent''), CStr (u ''Groceries'')]),
                (u ''Amount'', [CStr (u ''$12.50''), CStr (u ''800''), CStr (u ''(5.00)'')])]"
  shows "fst (analyze_expenses L contents lg) =
           Ok \<lparr> answer = CFloat (Finite (15 / 2)), email = ''user@example.com'',
                exam = ''tds-2025-05-roe'' \<rparr>"
proof -
  let ?df = "[(u ''Category'', [CStr (u ''Lunch''), CStr (u ''Rent''), CStr (u ''Groceries'')]),
                (u ''Amount'', [CStr (u ''$12.50''), CStr (u ''800''), CStr (u ''(5.00)'')])]"
  have ne: "\<not> df_empty ?df"
    by (simp add: df_empty_def nrows_def)
  have hs: "map (\<lambda>c. str_lower L (strip c)) (map fst ?df) = [u ''category'', u ''amount'']"
    using category_amount_headers [OF assms(1)] by simp
  have "analyze_frame L ?df lg =
      total_food_spending L (set_columns [u ''category'', u ''amount''] ?df)
        (u ''amount'') (u ''category'')
        (lg @ [Info_columns (map fst ?df), Info_shape (nrows ?df) (length ?df)])"
    unfolding analyze_frame_cases hs Let_def category_amount_detect using ne by simp
  then have "fst (analyze_frame L ?df lg) =
           Ok \<lparr> answer = CFloat (Finite (15 / 2)), email = ''user@example.com'',
                exam = ''tds-2025-05-roe'' \<rparr>"
    using example_frame [OF assms(1)] by simp
  then show ?thesis
    by (rule analyze_expenses_Ok [OF assms(2,3)])
qed

lemma example_upload:
  "decode_contents ''Category,Amount\<newline>Lunch,$12.50\<newline>Rent,800\<newline>Groceries,(5.00)\<newline>'' =
     Ok (u ''Category,Amount\<newline>Lunch,$12.50\<newline>Rent,800\<newline>Groceries,(5.00)\<newline>'')"
  "plain_read_csv (u ''Category,Amount\<newline>Lunch,$12.50\<newline>Rent,800\<newline>Groceries,(5.00)\<newline>'') =
     Inr [(u ''Category'', [CStr (u ''Lunch''), CStr (u ''Rent''), CStr (u ''Groceries'')]),
          (u ''Amount'', [CStr (u ''$12.50''), CStr (u ''800''), CStr (u ''(5.00)'')])]"
  by (simp_all add: decode_eval reader_eval)

theorem three_row_example_witness:
  "unicode_on_ascii plain_lib
   \<and> decode_contents ''Category,Amount\<newline>Lunch,$12.50\<newline>Rent,800\<newline>Groceries,(5.00)\<newline>'' =
     Ok (u ''Category,Amount\<newline>Lunch,$12.50\<newline>Rent,800\<newline>Groceries,(5.00)\<newline>'')
   \<and> read_csv plain_lib (u ''Category,Amount\<newline>Lunch,$12.50\<newline>Rent,800\<newline>Groceries,(5.00)\<newline>'') =
     Inr [(u ''Category'', [CStr (u ''Lunch''), CStr (u ''Rent''), CStr (u ''Groceries'')]),
          (u ''Amount'', [CStr (u ''$12.50''), CStr (u ''800''), CStr (u ''(5.00)'')])]
   \<and> fst (analyze_expenses plain_lib
        ''Category,Amount\<newline>Lunch,$12.50\<newline>Rent,800\<newline>Groceries,(5.00)\<newline>'' []) =
       Ok \<lparr> answer = CFloat (Finite (15 / 2)), email = ''user@example.com'',
            exam = ''tds-2025-05-roe'' \<rparr>"
  using three_row_example [OF unicode_on_ascii_plain_lib example_upload(1), of "[]"]
    unicode_on_ascii_plain_lib example_upload
  by simp

end
